theory Spec2Isabelle
  imports Complex_Main
begin

text \<open>
  A shallow embedding of the streaming completion pipeline and of the intelligence
  compressor of the Numina server: the route \<^verbatim>\<open>src/src/routes/completion.js\<close>, its
  optimized variant in \<^verbatim>\<open>src/unnamed/part_001\<close>, the route
  \<^verbatim>\<open>src/src/routes/emotions.js\<close> and the service
  \<^verbatim>\<open>src/src/services/intelligenceCompressorV2.js\<close>. The sections come in this order: the
  strings and values of JavaScript that the code works on, the code itself, and the
  properties of the code.
\<close>

section \<open>JavaScript strings\<close>

text \<open>
  A JavaScript string is a \<^typ>\<open>string\<close>, one \<^typ>\<open>char\<close> per code unit: the model
  covers text over the 8-bit alphabet (code units below 256). White space is the
  JavaScript set (WhiteSpace and LineTerminator) within that alphabet; it is what
  \<^verbatim>\<open>trim\<close> strips and what \<^verbatim>\<open>\s\<close> matches.
\<close>

definition isSpace :: "char \<Rightarrow> bool" where
  "isSpace c = (c \<in> set [CHR 0x09, CHR 0x0A, CHR 0x0B, CHR 0x0C, CHR 0x0D, CHR 0x20, CHR 0xA0])"

definition trim :: "string \<Rightarrow> string" where
  "trim s = rev (dropWhile isSpace (rev (dropWhile isSpace s)))"

definition toLower :: "char \<Rightarrow> char" where
  "toLower c =
    (let n = (of_char c :: nat)
     in if (65 \<le> n \<and> n \<le> 90) \<or> (192 \<le> n \<and> n \<le> 222 \<and> n \<noteq> 215)
        then char_of (n + 32) else c)"

definition toLowerCase :: "string \<Rightarrow> string" where
  "toLowerCase s = map toLower s"

fun startsWith :: "'a list \<Rightarrow> 'a list \<Rightarrow> bool" where
  "startsWith s [] = True"
| "startsWith [] (p # ps) = False"
| "startsWith (c # cs) (p # ps) = (c = p \<and> startsWith cs ps)"

fun includes_s :: "'a list \<Rightarrow> 'a list \<Rightarrow> bool" where
  "includes_s [] sub = (sub = [])"
| "includes_s (c # cs) sub = (startsWith (c # cs) sub \<or> includes_s cs sub)"

text \<open>\<^verbatim>\<open>s.indexOf(sub)\<close>, with \<^const>\<open>None\<close> for \<^verbatim>\<open>-1\<close>.\<close>

fun indexOf :: "'a list \<Rightarrow> 'a list \<Rightarrow> nat option" where
  "indexOf [] sub = (if sub = [] then Some 0 else None)"
| "indexOf (c # cs) sub =
    (if startsWith (c # cs) sub then Some 0 else map_option Suc (indexOf cs sub))"

text \<open>\<^verbatim>\<open>s.split(sep)\<close> for a one-character separator, and \<^verbatim>\<open>parts.join(sep)\<close>.\<close>

fun split :: "'a \<Rightarrow> 'a list \<Rightarrow> 'a list list" where
  "split sep [] = [[]]"
| "split sep (c # cs) =
    (if c = sep then [] # split sep cs
     else (case split sep cs of [] \<Rightarrow> [[c]] | l # ls \<Rightarrow> (c # l) # ls))"

fun join :: "'a list \<Rightarrow> 'a list list \<Rightarrow> 'a list" where
  "join sep [] = []"
| "join sep [x] = x"
| "join sep (x # y # ys) = x @ sep @ join sep (y # ys)"

text \<open>
  \<^verbatim>\<open>s.replace(pat, "")\<close> with a string pattern: the first occurrence of \<^verbatim>\<open>pat\<close> is
  removed.
\<close>

fun removeFirst :: "'a list \<Rightarrow> 'a list \<Rightarrow> 'a list" where
  "removeFirst [] pat = []"
| "removeFirst (c # cs) pat =
    (if startsWith (c # cs) pat then drop (length pat) (c # cs) else c # removeFirst cs pat)"

subsection \<open>Regular expressions of the source, as matchers\<close>

text \<open>
  A regular expression of the source is a matcher: applied to the text at a position it
  returns the length of the match that the backtracking engine finds there, if any.
  Every expression of the source matches at least one character.
  \<^verbatim>\<open>s.replace(re, rep)\<close> and \<^verbatim>\<open>s.match(re)\<close> with a global expression scan from the
  left, take the match at the leftmost position, and go on behind it.
\<close>

type_synonym matcher = "string \<Rightarrow> nat option"

function replaceAll :: "matcher \<Rightarrow> string \<Rightarrow> string \<Rightarrow> string" where
  "replaceAll m rep [] = []"
| "replaceAll m rep (c # cs) =
    (case m (c # cs) of
       None \<Rightarrow> c # replaceAll m rep cs
     | Some n \<Rightarrow> if n = 0 then c # replaceAll m rep cs
                else rep @ replaceAll m rep (drop n (c # cs)))"
  by pat_completeness auto
termination
  by (relation "measure (\<lambda>(m, rep, s). length s)") auto

function matchAll :: "matcher \<Rightarrow> string \<Rightarrow> string list" where
  "matchAll m [] = []"
| "matchAll m (c # cs) =
    (case m (c # cs) of
       None \<Rightarrow> matchAll m cs
     | Some n \<Rightarrow> if n = 0 then matchAll m cs
                else take n (c # cs) # matchAll m (drop n (c # cs)))"
  by pat_completeness auto
termination
  by (relation "measure (\<lambda>(m, s). length s)") auto

text \<open>\<^verbatim>\<open>s.match(re)\<close> without the global flag: the leftmost match, as (index, length).\<close>

fun matchFirst :: "matcher \<Rightarrow> string \<Rightarrow> (nat \<times> nat) option" where
  "matchFirst m [] = None"
| "matchFirst m (c # cs) =
    (case m (c # cs) of
       Some n \<Rightarrow> Some (0, n)
     | None \<Rightarrow> map_option (\<lambda>(i, n). (Suc i, n)) (matchFirst m cs))"

text \<open>\<^verbatim>\<open>/<\|im_(start|end)\|>(assistant|user)?\n?/\<close>\<close>

definition re_im :: matcher where
  "re_im s =
    (if startsWith s ''<|im_'' then
       (let r = drop 5 s;
            a = (if startsWith r ''start|>'' then Some 7
                 else if startsWith r ''end|>'' then Some 5 else None)
        in case a of
             None \<Rightarrow> None
           | Some k \<Rightarrow>
               (let r = drop k r;
                    b = (if startsWith r ''assistant'' then 9
                         else if startsWith r ''user'' then 4 else 0);
                    r = drop b r;
                    c = (if startsWith r [CHR 0x0A] then 1 else 0)
                in Some (5 + k + b + c)))
     else None)"

text \<open>
  The tail \<^verbatim>\<open>:?\s*(\{[\s\S]*?\})\<close> shared by the marker expressions: an optional colon,
  the white space, then a brace group up to the first closing brace. The result is the
  length of colon and white space, and the length of the group when there is one.
\<close>

definition braceGroup :: "string \<Rightarrow> nat option" where
  "braceGroup r =
    (case r of
       [] \<Rightarrow> None
     | c # r' \<Rightarrow> if c = CHR ''{'' \<and> CHR ''}'' \<in> set r'
                 then Some (length (takeWhile (\<lambda>x. x \<noteq> CHR ''}'') r') + 2) else None)"

definition markerTail :: "string \<Rightarrow> nat \<times> nat option" where
  "markerTail r =
    (let a = (if startsWith r '':'' then 1 else 0);
         w = length (takeWhile isSpace (drop a r))
     in (a + w, braceGroup (drop (a + w) r)))"

text \<open>
  \<^verbatim>\<open>METADATA_PATTERNS\<close>: \<^verbatim>\<open>/TASK_INFERENCE:?\s*(\{[\s\S]*?\})\s*?/g\<close> and
  \<^verbatim>\<open>/EMOTION_LOG:?\s*(\{[\s\S]*?\})\s*?/g\<close>; the final lazy \<^verbatim>\<open>\s*?\<close> matches nothing.
  \<^verbatim>\<open>metadataGroup\<close> gives where the brace group starts in the match, and its length.
\<close>

definition metadataGroup :: "string \<Rightarrow> string \<Rightarrow> (nat \<times> nat) option" where
  "metadataGroup marker s =
    (if startsWith s marker then
       (case markerTail (drop (length marker) s) of
          (k, Some g) \<Rightarrow> Some (length marker + k, g)
        | (k, None) \<Rightarrow> None)
     else None)"

definition re_metadata :: "string \<Rightarrow> matcher" where
  "re_metadata marker s = map_option (\<lambda>(off, g). off + g) (metadataGroup marker s)"

text \<open>
  \<^verbatim>\<open>CLEANUP_REGEX = /(?:TASK_INFERENCE|EMOTION_LOG):?\s*(?:\{[\s\S]*?\})?\s*?/g\<close>: the
  brace group is optional.
\<close>

definition re_cleanup :: matcher where
  "re_cleanup s =
    (let marker = (if startsWith s ''TASK_INFERENCE'' then Some ''TASK_INFERENCE''
                   else if startsWith s ''EMOTION_LOG'' then Some ''EMOTION_LOG'' else None)
     in case marker of
          None \<Rightarrow> None
        | Some mk \<Rightarrow>
            (case markerTail (drop (length mk) s) of
               (k, Some g) \<Rightarrow> Some (length mk + k + g)
             | (k, None) \<Rightarrow> Some (length mk + k)))"

text \<open>\<^verbatim>\<open>/```json[\s\S]*?```/\<close>\<close>

definition re_jsonBlock :: matcher where
  "re_jsonBlock s =
    (if startsWith s ''```json'' then
       map_option (\<lambda>i. 7 + i + 3) (indexOf (drop 7 s) ''```'')
     else None)"

text \<open>
  \<^verbatim>\<open>/(\r?\n){2,}/\<close>: \<^verbatim>\<open>nlRun\<close> counts the line ends \<^verbatim>\<open>\r?\n\<close> that follow one another
  at the start of the text, and their length.
\<close>

fun nlRun :: "string \<Rightarrow> nat \<times> nat" where
  "nlRun [] = (0, 0)"
| "nlRun [c] = (if c = CHR 0x0A then (1, 1) else (0, 0))"
| "nlRun (c # d # cs) =
    (if c = CHR 0x0A then (case nlRun (d # cs) of (k, n) \<Rightarrow> (Suc k, Suc n))
     else if c = CHR 0x0D \<and> d = CHR 0x0A then (case nlRun cs of (k, n) \<Rightarrow> (Suc k, n + 2))
     else (0, 0))"

definition re_blankLines :: matcher where
  "re_blankLines s = (case nlRun s of (k, n) \<Rightarrow> if 2 \<le> k then Some n else None)"

section \<open>JavaScript values and JSON\<close>

text \<open>
  The values that \<^verbatim>\<open>JSON.parse\<close> returns and that the intelligence context is made
  of. Numbers are exact rationals. An object is the list of its own properties in
  enumeration order, its keys distinct.
\<close>

datatype jsval =
    JUndefined
  | JNull
  | JBool bool
  | JNum rat
  | JStr string
  | JArr "jsval list"
  | JObj "(string \<times> jsval) list"

subsection \<open>Numbers and strings\<close>

definition isDigit :: "char \<Rightarrow> bool" where
  "isDigit c = (48 \<le> (of_char c :: nat) \<and> (of_char c :: nat) \<le> 57)"

definition digitVal :: "char \<Rightarrow> nat" where
  "digitVal c = of_char c - 48"

definition digitsToNat :: "string \<Rightarrow> nat" where
  "digitsToNat ds = foldl (\<lambda>a c. 10 * a + digitVal c) 0 ds"

definition hexVal :: "char \<Rightarrow> nat option" where
  "hexVal c =
    (let n = (of_char c :: nat)
     in if 48 \<le> n \<and> n \<le> 57 then Some (n - 48)
        else if 97 \<le> n \<and> n \<le> 102 then Some (n - 87)
        else if 65 \<le> n \<and> n \<le> 70 then Some (n - 55)
        else None)"

fun radixToNat :: "nat \<Rightarrow> nat \<Rightarrow> string \<Rightarrow> nat option" where
  "radixToNat b a [] = Some a"
| "radixToNat b a (c # cs) =
    (case hexVal c of
       None \<Rightarrow> None
     | Some d \<Rightarrow> if d < b then radixToNat b (b * a + d) cs else None)"

definition scale10 :: "rat \<Rightarrow> int \<Rightarrow> rat" where
  "scale10 m e = (if 0 \<le> e then m * 10 ^ nat e else m / 10 ^ nat (- e))"

text \<open>
  The exponent part \<^verbatim>\<open>[eE][+-]?[0-9]+\<close> of a number literal, which may be absent: the
  result is the exponent when the text is such a part or empty.
\<close>

definition exponentPart :: "string \<Rightarrow> int option" where
  "exponentPart r =
    (case r of
       [] \<Rightarrow> Some 0
     | c # r' \<Rightarrow>
         if c = CHR ''e'' \<or> c = CHR ''E'' then
           (let neg = startsWith r' ''-'';
                ds = (if startsWith r' ''-'' \<or> startsWith r' ''+'' then drop 1 r' else r')
            in if ds \<noteq> [] \<and> list_all isDigit ds
               then Some (if neg then - int (digitsToNat ds) else int (digitsToNat ds))
               else None)
         else None)"

text \<open>
  A number of the JSON grammar: \<^verbatim>\<open>-?(0|[1-9][0-9]*)(\.[0-9]+)?([eE][+-]?[0-9]+)?\<close>.
\<close>

definition jsonNumber :: "string \<Rightarrow> rat option" where
  "jsonNumber s =
    (let neg = startsWith s ''-'';
         r = (if neg then drop 1 s else s);
         ip = takeWhile isDigit r;
         r1 = dropWhile isDigit r;
         hasFrac = startsWith r1 ''.'';
         fp = (if hasFrac then takeWhile isDigit (drop 1 r1) else []);
         r2 = (if hasFrac then dropWhile isDigit (drop 1 r1) else r1)
     in if ip = [] \<or> (1 < length ip \<and> hd ip = CHR ''0'') \<or> (hasFrac \<and> fp = []) then None
        else (case exponentPart r2 of
                None \<Rightarrow> None
              | Some e \<Rightarrow>
                  (let m = scale10 (of_nat (digitsToNat (ip @ fp))) (e - int (length fp))
                   in Some (if neg then - m else m))))"

text \<open>
  \<^verbatim>\<open>Number.prototype.toString\<close>: an integer in decimal digits, another number with its
  decimal fraction (at most 20 digits of it; the exponent notation of very large and
  very small numbers is not modelled).
\<close>

fun natToString :: "nat \<Rightarrow> string" where
  "natToString n =
    (if n < 10 then [char_of (48 + n)] else natToString (n div 10) @ [char_of (48 + n mod 10)])"

declare natToString.simps [simp del]

fun fracDigits :: "nat \<Rightarrow> rat \<Rightarrow> string" where
  "fracDigits 0 f = []"
| "fracDigits (Suc k) f =
    (if f = 0 then []
     else (let d = nat \<lfloor>f * 10\<rfloor> in char_of (48 + d) # fracDigits k (f * 10 - of_nat d)))"

definition numToString :: "rat \<Rightarrow> string" where
  "numToString q =
    (let a = \<bar>q\<bar>; i = nat \<lfloor>a\<rfloor>; f = a - of_nat i
     in (if q < 0 then ''-'' else '''') @ natToString i
        @ (if f = 0 then '''' else ''.'' @ fracDigits 20 f))"

subsection \<open>Conversions and operators\<close>

text \<open>\<^verbatim>\<open>ToBoolean\<close>: what \<^verbatim>\<open>if (v)\<close>, \<^verbatim>\<open>!v\<close>, \<^verbatim>\<open>a || b\<close> and \<^verbatim>\<open>a && b\<close> test.\<close>

fun truthy :: "jsval \<Rightarrow> bool" where
  "truthy JUndefined = False"
| "truthy JNull = False"
| "truthy (JBool b) = b"
| "truthy (JNum q) = (q \<noteq> 0)"
| "truthy (JStr s) = (s \<noteq> [])"
| "truthy (JArr xs) = True"
| "truthy (JObj kvs) = True"

definition js_or :: "jsval \<Rightarrow> jsval \<Rightarrow> jsval" where
  "js_or a b = (if truthy a then a else b)"

text \<open>
  \<^verbatim>\<open>v?.k\<close>: the own property \<^verbatim>\<open>k\<close> of an object, an element or the length of an
  array or of a string; \<^verbatim>\<open>undefined\<close> on \<^verbatim>\<open>undefined\<close>, \<^verbatim>\<open>null\<close> and where there is no such
  property. Inherited properties are not modelled.
\<close>

definition isIndexKey :: "string \<Rightarrow> bool" where
  "isIndexKey k =
    (k \<noteq> [] \<and> list_all isDigit k \<and> (k = ''0'' \<or> hd k \<noteq> CHR ''0'')
     \<and> int (digitsToNat k) \<le> 4294967294)"

definition elemAt :: "'a list \<Rightarrow> string \<Rightarrow> 'a option" where
  "elemAt xs k =
    (if isIndexKey k \<and> digitsToNat k < length xs then Some (xs ! digitsToNat k) else None)"

fun js_get :: "jsval \<Rightarrow> string \<Rightarrow> jsval" where
  "js_get (JObj kvs) k = (case map_of kvs k of Some v \<Rightarrow> v | None \<Rightarrow> JUndefined)"
| "js_get (JArr xs) k =
    (if k = ''length'' then JNum (of_nat (length xs))
     else (case elemAt xs k of Some v \<Rightarrow> v | None \<Rightarrow> JUndefined))"
| "js_get (JStr s) k =
    (if k = ''length'' then JNum (of_nat (length s))
     else (case elemAt s k of Some c \<Rightarrow> JStr [c] | None \<Rightarrow> JUndefined))"
| "js_get v k = JUndefined"

text \<open>
  \<^verbatim>\<open>Object.entries(v)\<close>, and the property definition that keeps the enumeration order:
  array indices first, in ascending order, then the other keys as they were added.
\<close>

fun js_entries :: "jsval \<Rightarrow> (string \<times> jsval) list" where
  "js_entries (JObj kvs) = kvs"
| "js_entries (JArr xs) = zip (map natToString [0..<length xs]) xs"
| "js_entries (JStr s) = zip (map natToString [0..<length s]) (map (\<lambda>c. JStr [c]) s)"
| "js_entries v = []"

definition js_keys :: "jsval \<Rightarrow> string list" where
  "js_keys v = map fst (js_entries v)"

fun insertIndexKey :: "(string \<times> 'v) list \<Rightarrow> string \<Rightarrow> 'v \<Rightarrow> (string \<times> 'v) list" where
  "insertIndexKey [] k v = [(k, v)]"
| "insertIndexKey ((k', v') # kvs) k v =
    (if isIndexKey k' \<and> digitsToNat k' < digitsToNat k then (k', v') # insertIndexKey kvs k v
     else (k, v) # (k', v') # kvs)"

definition objSet :: "(string \<times> 'v) list \<Rightarrow> string \<Rightarrow> 'v \<Rightarrow> (string \<times> 'v) list" where
  "objSet kvs k v =
    (if k \<in> set (map fst kvs) then map (\<lambda>(k', v'). if k' = k then (k', v) else (k', v')) kvs
     else if isIndexKey k then insertIndexKey kvs k v
     else kvs @ [(k, v)])"

text \<open>The object spread \<^verbatim>\<open>{...a, ...b}\<close>.\<close>

definition js_spread :: "jsval \<Rightarrow> jsval \<Rightarrow> jsval" where
  "js_spread a b =
    JObj (foldl (\<lambda>kvs (k, v). objSet kvs k v) [] (js_entries a @ js_entries b))"

text \<open>
  \<^verbatim>\<open>String(v)\<close>, as a template literal and \<^verbatim>\<open>+=\<close> onto a string apply it, for objects
  that do not redefine \<^verbatim>\<open>toString\<close>.
\<close>

fun js_toString :: "jsval \<Rightarrow> string" where
  "js_toString JUndefined = ''undefined''"
| "js_toString JNull = ''null''"
| "js_toString (JBool b) = (if b then ''true'' else ''false'')"
| "js_toString (JNum q) = numToString q"
| "js_toString (JStr s) = s"
| "js_toString (JArr xs) =
    join '','' (map (\<lambda>x. if x = JUndefined \<or> x = JNull then '''' else js_toString x) xs)"
| "js_toString (JObj kvs) = ''[object Object]''"

text \<open>
  \<^verbatim>\<open>ToNumber\<close>, which the comparisons \<^verbatim>\<open>>\<close>, \<^verbatim>\<open>>=\<close>, \<^verbatim>\<open><=\<close> with a number apply to the
  other operand.
\<close>

datatype jsnum = NaN | Fin rat | PosInf | NegInf

definition decimalLiteral :: "string \<Rightarrow> jsnum" where
  "decimalLiteral s =
    (let neg = startsWith s ''-'';
         r = (if startsWith s ''-'' \<or> startsWith s ''+'' then drop 1 s else s)
     in if r = ''Infinity'' then (if neg then NegInf else PosInf)
        else
          (let ip = takeWhile isDigit r;
               r1 = dropWhile isDigit r;
               hasDot = startsWith r1 ''.'';
               fp = (if hasDot then takeWhile isDigit (drop 1 r1) else []);
               r2 = (if hasDot then dropWhile isDigit (drop 1 r1) else r1)
           in if ip = [] \<and> fp = [] then NaN
              else (case exponentPart r2 of
                      None \<Rightarrow> NaN
                    | Some e \<Rightarrow>
                        (let m = scale10 (of_nat (digitsToNat (ip @ fp))) (e - int (length fp))
                         in Fin (if neg then - m else m)))))"

definition stringToNumber :: "string \<Rightarrow> jsnum" where
  "stringToNumber s0 =
    (let s = trim s0;
         radix = (if startsWith s ''0x'' \<or> startsWith s ''0X'' then Some 16
                  else if startsWith s ''0o'' \<or> startsWith s ''0O'' then Some 8
                  else if startsWith s ''0b'' \<or> startsWith s ''0B'' then Some 2
                  else None)
     in if s = [] then Fin 0
        else (case radix of
                Some b \<Rightarrow>
                  (if drop 2 s = [] then NaN
                   else (case radixToNat b 0 (drop 2 s) of
                           None \<Rightarrow> NaN | Some n \<Rightarrow> Fin (of_nat n)))
              | None \<Rightarrow> decimalLiteral s))"

fun toNumber :: "jsval \<Rightarrow> jsnum" where
  "toNumber JUndefined = NaN"
| "toNumber JNull = Fin 0"
| "toNumber (JBool b) = Fin (if b then 1 else 0)"
| "toNumber (JNum q) = Fin q"
| "toNumber (JStr s) = stringToNumber s"
| "toNumber (JArr xs) = stringToNumber (js_toString (JArr xs))"
| "toNumber (JObj kvs) = NaN"

definition js_gt :: "jsval \<Rightarrow> rat \<Rightarrow> bool" where
  "js_gt v n = (case toNumber v of Fin q \<Rightarrow> n < q | PosInf \<Rightarrow> True | _ \<Rightarrow> False)"

definition js_ge :: "jsval \<Rightarrow> rat \<Rightarrow> bool" where
  "js_ge v n = (case toNumber v of Fin q \<Rightarrow> n \<le> q | PosInf \<Rightarrow> True | _ \<Rightarrow> False)"

definition js_le :: "jsval \<Rightarrow> rat \<Rightarrow> bool" where
  "js_le v n = (case toNumber v of Fin q \<Rightarrow> q \<le> n | NegInf \<Rightarrow> True | _ \<Rightarrow> False)"

definition js_lt :: "jsval \<Rightarrow> rat \<Rightarrow> bool" where
  "js_lt v n = (case toNumber v of Fin q \<Rightarrow> q < n | NegInf \<Rightarrow> True | _ \<Rightarrow> False)"

subsection \<open>\<^verbatim>\<open>JSON.parse\<close>\<close>

text \<open>
  The text is cut into tokens, and a pushdown automaton reads the tokens; \<^const>\<open>None\<close>
  is the \<^verbatim>\<open>SyntaxError\<close>. An escape \<^verbatim>\<open>\uXXXX\<close> of a code unit outside the 8-bit
  alphabet is outside the model and is refused.
\<close>

datatype token =
    TLBrace | TRBrace | TLBrack | TRBrack | TColon | TComma
  | TStr string | TNum rat | TTrue | TFalse | TNull

definition unescape :: "char \<Rightarrow> char option" where
  "unescape e =
    (if e = CHR 0x22 \<or> e = CHR 0x5C \<or> e = CHR ''/'' then Some e
     else if e = CHR ''b'' then Some (CHR 0x08)
     else if e = CHR ''f'' then Some (CHR 0x0C)
     else if e = CHR ''n'' then Some (CHR 0x0A)
     else if e = CHR ''r'' then Some (CHR 0x0D)
     else if e = CHR ''t'' then Some (CHR 0x09)
     else None)"

definition hex4 :: "string \<Rightarrow> char option" where
  "hex4 ds =
    (if length ds = 4 then
       (case radixToNat 16 0 ds of
          None \<Rightarrow> None
        | Some n \<Rightarrow> if n < 256 then Some (char_of n) else None)
     else None)"

text \<open>The text behind an opening quote: the string it denotes, and the text behind it.\<close>

fun scanString :: "string \<Rightarrow> (string \<times> string) option" where
  "scanString [] = None"
| "scanString [c] = (if c = CHR 0x22 then Some ([], []) else None)"
| "scanString (c # e # es) =
    (if c = CHR 0x22 then Some ([], e # es)
     else if c = CHR 0x5C then
       (if e = CHR ''u'' then
          (case hex4 (take 4 es) of
             None \<Rightarrow> None
           | Some ch \<Rightarrow> map_option (\<lambda>(s, r). (ch # s, r)) (scanString (drop 4 es)))
        else
          (case unescape e of
             None \<Rightarrow> None
           | Some ch \<Rightarrow> map_option (\<lambda>(s, r). (ch # s, r)) (scanString es)))
     else if (of_char c :: nat) < 32 then None
     else map_option (\<lambda>(s, r). (c # s, r)) (scanString (e # es)))"

lemma scanString_shorter: "scanString cs = Some (s, r) \<Longrightarrow> length r \<le> length cs"
proof (induction cs arbitrary: s r rule: scanString.induct)
  case 1
  then show ?case by simp
next
  case (2 c)
  then show ?case by (simp split: if_splits)
next
  case (3 c e es)
  show ?case
  proof (cases "c = CHR 0x22")
    case True
    with 3 show ?thesis by simp
  next
    case notq: False
    show ?thesis
    proof (cases "c = CHR 0x5C")
      case bs: True
      show ?thesis
      proof (cases "e = CHR ''u''")
        case True
        with 3 notq bs obtain ch s' where h: "hex4 (take 4 es) = Some ch"
          and r: "scanString (drop 4 es) = Some (s', r)"
          by (auto split: option.splits)
        from "3.IH"(1) [OF notq bs True h r] show ?thesis by simp
      next
        case False
        with 3 notq bs obtain ch s' where h: "unescape e = Some ch"
          and r: "scanString es = Some (s', r)"
          by (auto split: option.splits)
        from "3.IH"(2) [OF notq bs False h r] show ?thesis by simp
      qed
    next
      case False
      with 3 notq obtain s' where lo: "\<not> (of_char c :: nat) < 32"
        and r: "scanString (e # es) = Some (s', r)"
        by (auto split: if_splits)
      from "3.IH"(3) [OF notq False lo r] show ?thesis by simp
    qed
  qed
qed

definition isJsonSpace :: "char \<Rightarrow> bool" where
  "isJsonSpace c = (c \<in> set [CHR 0x20, CHR 0x09, CHR 0x0A, CHR 0x0D])"

definition isNumChar :: "char \<Rightarrow> bool" where
  "isNumChar c = (isDigit c \<or> c \<in> set ''+-.eE'')"

definition punct :: "char \<Rightarrow> token option" where
  "punct c =
    (if c = CHR ''{'' then Some TLBrace else if c = CHR ''}'' then Some TRBrace
     else if c = CHR ''['' then Some TLBrack else if c = CHR '']'' then Some TRBrack
     else if c = CHR '':'' then Some TColon else if c = CHR '','' then Some TComma
     else None)"

definition keyword :: "string \<Rightarrow> (token \<times> nat) option" where
  "keyword s =
    (if startsWith s ''true'' then Some (TTrue, 4)
     else if startsWith s ''false'' then Some (TFalse, 5)
     else if startsWith s ''null'' then Some (TNull, 4)
     else None)"

function tokenize :: "string \<Rightarrow> token list option" where
  "tokenize [] = Some []"
| "tokenize (c # cs) =
    (if isJsonSpace c then tokenize cs
     else if punct c \<noteq> None then map_option ((#) (the (punct c))) (tokenize cs)
     else if c = CHR 0x22 then
       (case scanString cs of
          None \<Rightarrow> None
        | Some (s, r) \<Rightarrow> map_option ((#) (TStr s)) (tokenize r))
     else if c = CHR ''-'' \<or> isDigit c then
       (case jsonNumber (c # takeWhile isNumChar cs) of
          None \<Rightarrow> None
        | Some q \<Rightarrow> map_option ((#) (TNum q)) (tokenize (dropWhile isNumChar cs)))
     else
       (case keyword (c # cs) of
          None \<Rightarrow> None
        | Some (t, n) \<Rightarrow> map_option ((#) t) (tokenize (drop (n - 1) cs))))"
  by pat_completeness auto
termination
  by (relation "measure length")
    (auto simp: le_imp_less_Suc length_dropWhile_le dest: scanString_shorter)

datatype frame = FArr "jsval list" | FObj "(string \<times> jsval) list" "string option"

datatype pstate = PValue | PArrStart | PObjStart | PKey | PColon | PAfter | PDone jsval

text \<open>A value is complete: it is the result, or it goes into the container on top.\<close>

fun complete :: "jsval \<Rightarrow> frame list \<Rightarrow> (pstate \<times> frame list) option" where
  "complete v [] = Some (PDone v, [])"
| "complete v (FArr es # st) = Some (PAfter, FArr (es @ [v]) # st)"
| "complete v (FObj kvs (Some k) # st) = Some (PAfter, FObj (objSet kvs k v) None # st)"
| "complete v (FObj kvs None # st) = None"

fun closeArr :: "frame list \<Rightarrow> (pstate \<times> frame list) option" where
  "closeArr (FArr es # st) = complete (JArr es) st"
| "closeArr st = None"

fun closeObj :: "frame list \<Rightarrow> (pstate \<times> frame list) option" where
  "closeObj (FObj kvs None # st) = complete (JObj kvs) st"
| "closeObj st = None"

fun setKey :: "string \<Rightarrow> frame list \<Rightarrow> (pstate \<times> frame list) option" where
  "setKey k (FObj kvs None # st) = Some (PColon, FObj kvs (Some k) # st)"
| "setKey k st = None"

fun startValue :: "token \<Rightarrow> frame list \<Rightarrow> (pstate \<times> frame list) option" where
  "startValue (TStr s) st = complete (JStr s) st"
| "startValue (TNum q) st = complete (JNum q) st"
| "startValue TTrue st = complete (JBool True) st"
| "startValue TFalse st = complete (JBool False) st"
| "startValue TNull st = complete JNull st"
| "startValue TLBrack st = Some (PArrStart, FArr [] # st)"
| "startValue TLBrace st = Some (PObjStart, FObj [] None # st)"
| "startValue t st = None"

fun pstep :: "pstate \<Rightarrow> frame list \<Rightarrow> token \<Rightarrow> (pstate \<times> frame list) option" where
  "pstep PValue st t = startValue t st"
| "pstep PArrStart st t = (if t = TRBrack then closeArr st else startValue t st)"
| "pstep PObjStart st t =
    (case t of TStr k \<Rightarrow> setKey k st | TRBrace \<Rightarrow> closeObj st | _ \<Rightarrow> None)"
| "pstep PKey st t = (case t of TStr k \<Rightarrow> setKey k st | _ \<Rightarrow> None)"
| "pstep PColon st t = (if t = TColon then Some (PValue, st) else None)"
| "pstep PAfter st t =
    (case t of
       TComma \<Rightarrow> (case st of FArr es # st' \<Rightarrow> Some (PValue, st)
                   | FObj kvs k # st' \<Rightarrow> Some (PKey, st) | [] \<Rightarrow> None)
     | TRBrack \<Rightarrow> closeArr st
     | TRBrace \<Rightarrow> closeObj st
     | _ \<Rightarrow> None)"
| "pstep (PDone v) st t = None"

fun prun :: "pstate \<Rightarrow> frame list \<Rightarrow> token list \<Rightarrow> (pstate \<times> frame list) option" where
  "prun p st [] = Some (p, st)"
| "prun p st (t # ts) = (case pstep p st t of None \<Rightarrow> None | Some (p', st') \<Rightarrow> prun p' st' ts)"

definition JSON_parse :: "string \<Rightarrow> jsval option" where
  "JSON_parse s =
    (case tokenize s of
       None \<Rightarrow> None
     | Some ts \<Rightarrow> (case prun PValue [] ts of Some (PDone v, []) \<Rightarrow> Some v | _ \<Rightarrow> None))"

subsection \<open>\<^verbatim>\<open>JSON.stringify\<close>\<close>

definition hexDigit :: "nat \<Rightarrow> char" where
  "hexDigit d = (if d < 10 then char_of (48 + d) else char_of (87 + d))"

definition escapeChar :: "char \<Rightarrow> string" where
  "escapeChar c =
    (if c = CHR 0x22 then [CHR 0x5C, CHR 0x22]
     else if c = CHR 0x5C then [CHR 0x5C, CHR 0x5C]
     else if c = CHR 0x08 then [CHR 0x5C, CHR ''b'']
     else if c = CHR 0x0C then [CHR 0x5C, CHR ''f'']
     else if c = CHR 0x0A then [CHR 0x5C, CHR ''n'']
     else if c = CHR 0x0D then [CHR 0x5C, CHR ''r'']
     else if c = CHR 0x09 then [CHR 0x5C, CHR ''t'']
     else if (of_char c :: nat) < 32 then
       [CHR 0x5C, CHR ''u'', CHR ''0'', CHR ''0'', hexDigit (of_char c div 16),
        hexDigit (of_char c mod 16)]
     else [c])"

definition quote :: "string \<Rightarrow> string" where
  "quote s = [CHR 0x22] @ concat (map escapeChar s) @ [CHR 0x22]"

text \<open>
  \<^verbatim>\<open>JSON.stringify(v)\<close>; \<^const>\<open>None\<close> is the result \<^verbatim>\<open>undefined\<close>. In an array
  \<^verbatim>\<open>undefined\<close> is written \<^verbatim>\<open>null\<close>, in an object a property that is \<^verbatim>\<open>undefined\<close> is
  left out.
\<close>

fun stringifyVal :: "jsval \<Rightarrow> string" where
  "stringifyVal JUndefined = ''null''"
| "stringifyVal JNull = ''null''"
| "stringifyVal (JBool b) = (if b then ''true'' else ''false'')"
| "stringifyVal (JNum q) = numToString q"
| "stringifyVal (JStr s) = quote s"
| "stringifyVal (JArr xs) = ''['' @ join '','' (map stringifyVal xs) @ '']''"
| "stringifyVal (JObj kvs) =
    ''{'' @ join '','' (map (\<lambda>(k, v). quote k @ '':'' @ stringifyVal v)
                          (filter (\<lambda>(k, v). v \<noteq> JUndefined) kvs)) @ ''}''"

definition JSON_stringify :: "jsval \<Rightarrow> string option" where
  "JSON_stringify v = (if v = JUndefined then None else Some (stringifyVal v))"

section \<open>Intelligence compressor\<close>

text \<open>
  Source: \<^verbatim>\<open>src/src/services/intelligenceCompressorV2.js\<close>. Numbers are exact
  rationals; \<^verbatim>\<open>Math.round\<close> rounds a half towards plus infinity, as \<^const>\<open>round\<close>
  does. The tables are looked up by own properties. An exception is a value
  \<^verbatim>\<open>Inl\<close>, which \<^verbatim>\<open>compressForLLM\<close> catches.
\<close>

datatype jsError = TypeError

record modelProfile =
  maxContextTokens :: rat
  optimalIntelligenceTokens :: rat
  semanticUnderstanding :: rat
  compressionTolerance :: rat

definition gpt4o :: modelProfile where
  "gpt4o = \<lparr>maxContextTokens = 128000, optimalIntelligenceTokens = 150,
     semanticUnderstanding = 95 / 100, compressionTolerance = 8 / 10\<rparr>"

definition modelProfiles :: "string \<Rightarrow> modelProfile option" where
  "modelProfiles model =
    (if model = ''gpt-4o'' then Some gpt4o
     else if model = ''claude-3'' then
       Some \<lparr>maxContextTokens = 200000, optimalIntelligenceTokens = 200,
         semanticUnderstanding = 92 / 100, compressionTolerance = 75 / 100\<rparr>
     else if model = ''gpt-4'' then
       Some \<lparr>maxContextTokens = 8000, optimalIntelligenceTokens = 100,
         semanticUnderstanding = 88 / 100, compressionTolerance = 85 / 100\<rparr>
     else None)"

definition typeMultipliers :: "string \<Rightarrow> rat option" where
  "typeMultipliers messageType =
    (if messageType = ''greeting'' then Some (3 / 10)
     else if messageType = ''standard'' then Some 1
     else if messageType = ''question'' then Some (12 / 10)
     else if messageType = ''technical'' then Some (15 / 10)
     else if messageType = ''analysis'' then Some (18 / 10)
     else if messageType = ''emotional'' then Some (13 / 10)
     else if messageType = ''creative'' then Some (14 / 10)
     else None)"

text \<open>
  \<^verbatim>\<open>calculateOptimalTokenBudget(model, messageType, complexity, conversationHistory)\<close>;
  the history enters only through its length.
\<close>

definition calculateOptimalTokenBudget :: "string \<Rightarrow> string \<Rightarrow> rat \<Rightarrow> nat \<Rightarrow> int" where
  "calculateOptimalTokenBudget model messageType complexity historyLength =
    (let profile = (case modelProfiles model of Some p \<Rightarrow> p | None \<Rightarrow> gpt4o);
         baseBudget = optimalIntelligenceTokens profile;
         complexityMultiplier = min 2 (1 / 2 + complexity / 10);
         baseBudget = baseBudget * complexityMultiplier;
         baseBudget = baseBudget * (case typeMultipliers messageType of Some m \<Rightarrow> m | None \<Rightarrow> 1);
         baseBudget = (if 10 < historyLength then baseBudget * (13 / 10)
                       else if historyLength < 3 then baseBudget * (8 / 10)
                       else baseBudget)
     in round (min baseBudget (maxContextTokens profile * (1 / 10))))"

text \<open>
  \<^verbatim>\<open>selectOptimalStrategy(clusteredIntelligence, tokenBudget, qualityTarget, model)\<close>
  reads only the budget.
\<close>

definition selectOptimalStrategy :: "jsval \<Rightarrow> int \<Rightarrow> rat \<Rightarrow> string \<Rightarrow> string" where
  "selectOptimalStrategy clusteredIntelligence tokenBudget qualityTarget model =
    (if tokenBudget < 50 then ''minimal''
     else if 150 < tokenBudget then ''comprehensive''
     else ''balanced'')"

subsection \<open>Abbreviation and compression of values\<close>

definition semanticAbbreviations :: "(string \<times> string) list" where
  "semanticAbbreviations =
    [(''messageComplexity'', ''mc''), (''currentState'', ''cs''), (''primaryEmotion'', ''e''),
     (''emotionalIntensity'', ''ei''), (''confidence'', ''conf''), (''engagementLevel'', ''eng''),
     (''emotionalShifts'', ''esh''), (''communicationStyle'', ''comm''),
     (''topicEvolution'', ''topic''), (''dominantTopic'', ''dom''), (''topicFlow'', ''flow''),
     (''transitions'', ''trans''),
     (''engagementTrends'', ''etrend''), (''interactionPatterns'', ''ipat''),
     (''emotionalTrends'', ''etrend''), (''problemSolvingApproach'', ''psa''),
     (''personalityEvolution'', ''pers''), (''dominantTraits'', ''traits''),
     (''cognitiveStyle'', ''cog''), (''decisionPatterns'', ''dec''),
     (''learningVelocity'', ''lv''), (''emotionalProfile'', ''eprof''),
     (''trend'', ''t''), (''current'', ''c''), (''baseline'', ''b''),
     (''increasing'', ''inc''), (''decreasing'', ''dec''), (''stable'', ''stab''),
     (''neutral'', ''neu''), (''positive'', ''pos''), (''negative'', ''neg''),
     (''analytical'', ''ana''), (''creative'', ''cre''), (''practical'', ''prac''),
     (''inquiry'', ''inq''), (''personal'', ''pers''), (''technical'', ''tech''),
     (''sharing'', ''shr''), (''questioning'', ''que''), (''explaining'', ''exp'')]"

text \<open>
  \<^verbatim>\<open>getAbbreviation(term)\<close>: \<^verbatim>\<open>null\<close> for what is no string or is empty,
  \<^verbatim>\<open>undefined\<close> for a string the dictionary does not have.
\<close>

definition getAbbreviation :: "jsval \<Rightarrow> jsval" where
  "getAbbreviation term =
    (case term of
       JStr t \<Rightarrow>
         if t = [] then JNull
         else (case map_of semanticAbbreviations t of
                 Some a \<Rightarrow> JStr a
               | None \<Rightarrow>
                   (case map_of semanticAbbreviations (toLowerCase t) of
                      Some a \<Rightarrow> JStr a
                    | None \<Rightarrow> JUndefined))
     | _ \<Rightarrow> JNull)"

definition estimateTokenCount :: "string \<Rightarrow> nat" where
  "estimateTokenCount text = (length text + 3) div 4"

text \<open>\<^verbatim>\<open>truncateToTokenLimit(text, tokenLimit)\<close>: the loop over the parts, then the function.\<close>

fun truncateLoop :: "int \<Rightarrow> string list \<Rightarrow> string \<Rightarrow> int \<Rightarrow> string" where
  "truncateLoop tokenLimit [] result tokenCount = result"
| "truncateLoop tokenLimit (part # parts) result tokenCount =
    (let partTokens = int (estimateTokenCount (part @ '','')) in
       if tokenLimit < tokenCount + partTokens then result
       else truncateLoop tokenLimit parts
              (result @ (if result \<noteq> [] then '','' else '''') @ part)
              (tokenCount + partTokens))"

definition truncateToTokenLimit :: "string \<Rightarrow> int \<Rightarrow> string" where
  "truncateToTokenLimit text tokenLimit = truncateLoop tokenLimit (split (CHR '','') text) [] 0"

text \<open>
  An item of an array in \<^verbatim>\<open>compressValue\<close>:
  \<^verbatim>\<open>getAbbreviation(item) || item.toString().charAt(0)\<close>, where \<^verbatim>\<open>null\<close> and
  \<^verbatim>\<open>undefined\<close> have no \<^verbatim>\<open>toString\<close>.
\<close>

definition compressItem :: "jsval \<Rightarrow> jsError + string" where
  "compressItem item =
    (case getAbbreviation item of
       JStr a \<Rightarrow> Inr a
     | _ \<Rightarrow> if item = JUndefined \<or> item = JNull then Inl TypeError
            else Inr (take 1 (js_toString item)))"

text \<open>The results of a list of steps: the first exception, or all the values.\<close>

fun collect :: "('e + 'a) list \<Rightarrow> 'e + 'a list" where
  "collect [] = Inr []"
| "collect (Inl e # xs) = Inl e"
| "collect (Inr a # xs) = map_sum id ((#) a) (collect xs)"

definition isInteger :: "rat \<Rightarrow> bool" where
  "isInteger q = (of_int \<lfloor>q\<rfloor> = q)"

text \<open>\<^verbatim>\<open>compressValue(value)\<close>: \<^verbatim>\<open>null\<close>, a string or a number.\<close>

fun compressValue :: "jsval \<Rightarrow> jsError + jsval" where
  "compressValue JUndefined = Inr JNull"
| "compressValue JNull = Inr JNull"
| "compressValue (JStr s) = Inr (js_or (getAbbreviation (JStr s)) (JStr (take 8 s)))"
| "compressValue (JNum q) = Inr (JNum (if isInteger q then q else of_int (round (q * 10)) / 10))"
| "compressValue (JArr xs) =
    (case collect (map compressItem xs) of
       Inl e \<Rightarrow> Inl e
     | Inr parts \<Rightarrow> Inr (JStr (concat parts)))"
| "compressValue (JBool b) = Inr (JStr (take 6 (js_toString (JBool b))))"
| "compressValue (JObj kvs) =
    (let v = JObj kvs in
     if truthy (js_get v ''trend'') \<and> truthy (js_get v ''current'') then
       Inr (JStr (''t-'' @ js_toString (getAbbreviation (js_get v ''trend''))
                  @ '',c:'' @ js_toString (js_get v ''current'')))
     else if truthy (js_get v ''emotion'') \<and> truthy (js_get v ''intensity'') then
       Inr (JStr (js_toString (getAbbreviation (js_get v ''emotion''))
                  @ ''('' @ js_toString (js_get v ''intensity'') @ '')''))
     else
       (case kvs of
          [] \<Rightarrow> Inr (JStr (take 6 (js_toString v)))
        | (k, x) # rest \<Rightarrow>
            (case compressValue x of
               Inl e \<Rightarrow> Inl e
             | Inr valueAbbr \<Rightarrow>
                 Inr (JStr (js_toString (getAbbreviation (JStr k)) @ '':''
                            @ js_toString valueAbbr)))))"

text \<open>
  \<^verbatim>\<open>compressDataSemantically(data, tokenLimit)\<close>: one part
  \<^verbatim>\<open>`${abbreviatedKey}:${compressedValue}`\<close> for each entry but \<^verbatim>\<open>reliability\<close> whose
  compressed value is not \<^verbatim>\<open>null\<close>.
\<close>

definition compressEntry :: "string \<times> jsval \<Rightarrow> jsError + string list" where
  "compressEntry kv =
    (case kv of (key, v) \<Rightarrow>
       if key = ''reliability'' then Inr []
       else (let abbreviatedKey = js_or (getAbbreviation (JStr key)) (JStr (take 3 key))
             in case compressValue v of
                  Inl e \<Rightarrow> Inl e
                | Inr compressedValue \<Rightarrow>
                    if compressedValue \<noteq> JNull \<and> abbreviatedKey \<noteq> JNull
                    then Inr [js_toString abbreviatedKey @ '':'' @ js_toString compressedValue]
                    else Inr []))"

definition compressDataSemantically :: "jsval \<Rightarrow> int \<Rightarrow> jsError + string" where
  "compressDataSemantically data tokenLimit =
    (case collect (map compressEntry (js_entries data)) of
       Inl e \<Rightarrow> Inl e
     | Inr compressedParts \<Rightarrow>
         (let result = join '','' (concat compressedParts)
          in Inr (if tokenLimit < int (estimateTokenCount result)
                  then truncateToTokenLimit result tokenLimit else result)))"

definition formatSemanticCompressed :: "jsval \<Rightarrow> int \<Rightarrow> jsError + string" where
  "formatSemanticCompressed data tokenLimit =
    (if \<not> truthy data \<or> length (js_keys data) = 0 then Inr ''''
     else compressDataSemantically data tokenLimit)"

subsection \<open>Clusters\<close>

definition path :: "jsval \<Rightarrow> string list \<Rightarrow> jsval" where
  "path v ks = foldl js_get v ks"

definition extractPrimaryPersonality :: "jsval \<Rightarrow> jsval" where
  "extractPrimaryPersonality intelligence =
    (let traits = js_or (path intelligence [''macro'', ''personalityEvolution'', ''dominantTraits''])
                        (JArr [])
     in if js_gt (js_get traits ''length'') 0 then js_get traits ''0'' else JStr ''analytical'')"

definition extractCommunicationStyle :: "jsval \<Rightarrow> jsval" where
  "extractCommunicationStyle intelligence =
    js_or (path intelligence [''micro'', ''communicationStyle'', ''tone'']) (JStr ''balanced'')"

definition extractCognitiveProfile :: "jsval \<Rightarrow> jsval" where
  "extractCognitiveProfile intelligence =
    (let complexity = js_or (path intelligence [''micro'', ''messageComplexity'', ''current''])
                            (JNum 5)
     in JStr (if js_gt complexity 7 then ''complex''
              else if js_gt complexity 4 then ''moderate'' else ''simple''))"

text \<open>
  \<^verbatim>\<open>extractCurrentFocus(currentMoment)\<close> calls \<^verbatim>\<open>currentMoment.includes\<close>, which a string
  and an array have.
\<close>

definition js_includes :: "jsval \<Rightarrow> string \<Rightarrow> jsError + bool" where
  "js_includes v s =
    (case v of
       JStr t \<Rightarrow> Inr (includes_s t s)
     | JArr xs \<Rightarrow> Inr (JStr s \<in> set xs)
     | _ \<Rightarrow> Inl TypeError)"

definition extractCurrentFocus :: "jsval \<Rightarrow> jsError + jsval" where
  "extractCurrentFocus currentMoment =
    (case js_includes currentMoment ''technical'' of
       Inl e \<Rightarrow> Inl e
     | Inr True \<Rightarrow> Inr (JStr ''technical'')
     | Inr False \<Rightarrow>
         (case js_includes currentMoment ''personal'' of
            Inl e \<Rightarrow> Inl e
          | Inr True \<Rightarrow> Inr (JStr ''personal'')
          | Inr False \<Rightarrow>
              (case js_includes currentMoment ''creative'' of
                 Inl e \<Rightarrow> Inl e
               | Inr True \<Rightarrow> Inr (JStr ''creative'')
               | Inr False \<Rightarrow> Inr (JStr ''general''))))"

definition buildContextualCluster :: "jsval \<Rightarrow> string \<Rightarrow> rat \<Rightarrow> jsError + jsval" where
  "buildContextualCluster intelligence messageType complexity =
    (case extractCurrentFocus (js_or (path intelligence [''synthesis'', ''currentMoment''])
                                     (JStr '''')) of
       Inl e \<Rightarrow> Inl e
     | Inr focus \<Rightarrow>
         Inr (JObj [(''messageType'', JStr messageType),
                    (''complexity'', JNum complexity),
                    (''focus'', focus),
                    (''urgency'', JStr (if 8 < complexity then ''high'' else ''normal'')),
                    (''reliability'', JNum (8 / 10))]))"

definition predictUserNeeds :: "jsval \<Rightarrow> string \<Rightarrow> jsval" where
  "predictUserNeeds intelligence messageType =
    JArr ((if messageType = ''question''
           then [JStr ''detailed explanation'', JStr ''examples''] else [])
          @ (if messageType = ''technical''
             then [JStr ''precise information'', JStr ''implementation details''] else [])
          @ (if messageType = ''emotional''
             then [JStr ''empathy'', JStr ''support'', JStr ''understanding''] else []))"

definition predictOptimalResponse :: "jsval \<Rightarrow> rat \<Rightarrow> jsval" where
  "predictOptimalResponse intelligence complexity =
    JStr (if 7 < complexity then ''comprehensive-analytical''
          else if complexity < 4 then ''simple-direct''
          else ''balanced-informative'')"

definition predictNextInteraction :: "jsval \<Rightarrow> jsval" where
  "predictNextInteraction intelligence =
    (let patterns = js_or (path intelligence [''medium'', ''interactionPatterns'']) (JObj [])
     in js_or (js_get patterns ''likelyNext'') (JStr ''follow-up-question''))"

definition emptyClusters :: jsval where
  "emptyClusters =
    JObj [(''core'', JObj []), (''dynamic'', JObj []), (''contextual'', JObj []),
          (''predictive'', JObj []), (''behavioral'', JObj []), (''emotional'', JObj []),
          (''cognitive'', JObj [])]"

text \<open>\<^verbatim>\<open>clusterIntelligenceData(intelligenceContext, messageType, complexity)\<close>\<close>

definition clusterIntelligenceData :: "jsval \<Rightarrow> string \<Rightarrow> rat \<Rightarrow> jsError + jsval" where
  "clusterIntelligenceData ic messageType complexity =
    (if \<not> truthy ic then Inr emptyClusters
     else
      (case buildContextualCluster ic messageType complexity of
         Inl e \<Rightarrow> Inl e
       | Inr contextual \<Rightarrow>
           Inr (JObj
             [(''core'', JObj
                [(''primaryPersonality'', extractPrimaryPersonality ic),
                 (''communicationStyle'', extractCommunicationStyle ic),
                 (''cognitiveProfile'', extractCognitiveProfile ic),
                 (''reliability'', JNum (9 / 10))]),
              (''dynamic'', JObj
                [(''currentState'', js_or (path ic [''micro'', ''currentState'']) (JObj [])),
                 (''engagementLevel'',
                    js_or (path ic [''medium'', ''engagementTrends'', ''overall''])
                      (JStr ''moderate'')),
                 (''recentPattern'', js_or (path ic [''synthesis'', ''currentMoment'']) (JStr '''')),
                 (''emotionalState'', js_or (path ic [''micro'', ''emotionalShifts'']) (JArr [])),
                 (''reliability'', JNum (7 / 10))]),
              (''contextual'', contextual),
              (''predictive'', JObj
                [(''likelyNeeds'', predictUserNeeds ic messageType),
                 (''optimalResponse'', predictOptimalResponse ic complexity),
                 (''nextInteraction'', predictNextInteraction ic),
                 (''reliability'', JNum (6 / 10))]),
              (''behavioral'', JObj
                [(''decisionMaking'', js_or (path ic [''macro'', ''decisionPatterns'']) (JObj [])),
                 (''interactionStyle'',
                    js_or (path ic [''medium'', ''interactionPatterns'']) (JObj [])),
                 (''learningStyle'', js_or (path ic [''macro'', ''learningVelocity'']) (JObj [])),
                 (''reliability'', JNum (8 / 10))]),
              (''emotional'', JObj
                [(''current'',
                    js_or (path ic [''micro'', ''currentState'', ''primaryEmotion''])
                      (JStr ''neutral'')),
                 (''intensity'',
                    js_or (path ic [''micro'', ''currentState'', ''emotionalIntensity''])
                      (JNum 5)),
                 (''confidence'',
                    js_or (path ic [''micro'', ''currentState'', ''confidence''])
                      (JStr ''baseline_established'')),
                 (''recentShifts'', js_or (path ic [''micro'', ''emotionalShifts'']) (JArr [])),
                 (''baseline'', js_or (path ic [''macro'', ''emotionalProfile'']) (JObj [])),
                 (''patterns'', js_or (path ic [''medium'', ''emotionalTrends'']) (JObj [])),
                 (''reliability'', JNum (85 / 100))]),
              (''cognitive'', JObj
                [(''complexity'', js_or (path ic [''micro'', ''messageComplexity'']) (JObj [])),
                 (''processing'', js_or (path ic [''macro'', ''cognitiveStyle'']) (JObj [])),
                 (''problemSolving'',
                    js_or (path ic [''medium'', ''problemSolvingApproach'']) (JObj [])),
                 (''reliability'', JNum (85 / 100))])])))"

subsection \<open>Priorities and allocation\<close>

definition balancedPriorities :: "(string \<times> rat) list" where
  "balancedPriorities =
    [(''emotional'', 1), (''dynamic'', 95 / 100), (''core'', 9 / 10),
     (''contextual'', 8 / 10), (''behavioral'', 7 / 10), (''cognitive'', 6 / 10),
     (''predictive'', 6 / 10)]"

definition strategyPriorities :: "string \<Rightarrow> (string \<times> rat) list option" where
  "strategyPriorities strategy =
    (if strategy = ''minimal'' then
       Some [(''emotional'', 1), (''dynamic'', 9 / 10), (''core'', 8 / 10),
             (''contextual'', 6 / 10), (''predictive'', 2 / 10), (''behavioral'', 3 / 10),
             (''cognitive'', 3 / 10)]
     else if strategy = ''balanced'' then Some balancedPriorities
     else if strategy = ''comprehensive'' then
       Some [(''emotional'', 1), (''dynamic'', 1), (''core'', 95 / 100),
             (''contextual'', 9 / 10), (''behavioral'', 8 / 10), (''cognitive'', 75 / 100),
             (''predictive'', 8 / 10)]
     else None)"

text \<open>The number that arithmetic takes for a value; the reliabilities are numbers.\<close>

definition numberOf :: "jsval \<Rightarrow> rat" where
  "numberOf v = (case toNumber v of Fin q \<Rightarrow> q | _ \<Rightarrow> 0)"

definition calculateDataRichness :: "jsval \<Rightarrow> rat" where
  "calculateDataRichness cluster =
    (if \<not> truthy cluster then 1 / 10 else min 1 (of_nat (length (js_keys cluster)) / 10))"

record clusterPriority =
  priority :: rat
  reliability :: rat
  dataRichness :: rat

definition calculateClusterPriorities ::
  "jsval \<Rightarrow> jsval \<Rightarrow> (string \<times> clusterPriority) list" where
  "calculateClusterPriorities clusteredIntelligence strategy =
    (let basePriorities =
           (case strategyPriorities (js_toString strategy) of
              Some ps \<Rightarrow> ps
            | None \<Rightarrow> balancedPriorities)
     in map (\<lambda>(clusterName, basePriority).
              (let cluster = js_get clusteredIntelligence clusterName;
                   r = numberOf (js_or (js_get cluster ''reliability'') (JNum (1 / 2)));
                   d = calculateDataRichness cluster
               in (clusterName,
                   \<lparr>priority = basePriority * r * d, reliability = r, dataRichness = d\<rparr>)))
            basePriorities)"

text \<open>
  \<^verbatim>\<open>allocateTokensByPriority(clusterPriorities, totalTokenBudget)\<close>: the tokens of each
  cluster; \<^const>\<open>None\<close> is \<^verbatim>\<open>NaN\<close>, the rounded quotient \<^verbatim>\<open>0 / 0\<close> (no priority is
  negative, so all are zero when their sum is).
\<close>

definition allocateTokensByPriority ::
  "(string \<times> clusterPriority) list \<Rightarrow> int \<Rightarrow> (string \<times> int option \<times> rat) list" where
  "allocateTokensByPriority clusterPriorities totalTokenBudget =
    (let totalWeightedPriority = sum_list (map (\<lambda>(n, c). priority c) clusterPriorities)
     in map (\<lambda>(clusterName, cluster).
              (clusterName,
               (if totalWeightedPriority = 0 then None
                else Some (round (of_int totalTokenBudget
                                  * (priority cluster / totalWeightedPriority)))),
               priority cluster))
            clusterPriorities)"

subsection \<open>Compression of the clusters\<close>

definition extractEssentialData :: "jsval \<Rightarrow> jsval" where
  "extractEssentialData clusterData = JObj (take 2 (js_entries clusterData))"

definition extractImportantData :: "jsval \<Rightarrow> jsval" where
  "extractImportantData clusterData =
    JObj (take ((length (js_keys clusterData) + 1) div 2) (js_entries clusterData))"

definition extractDetailedData :: "jsval \<Rightarrow> jsval" where
  "extractDetailedData clusterData =
    JObj (filter (\<lambda>(k, v). k \<noteq> ''reliability'') (js_entries clusterData))"

text \<open>\<^verbatim>\<open>compressCluster(clusterData, tokenLimit, priority, model)\<close>\<close>

definition compressCluster :: "jsval \<Rightarrow> int \<Rightarrow> rat \<Rightarrow> string \<Rightarrow> jsError + jsval" where
  "compressCluster clusterData tokenLimit prio model =
    (if \<not> truthy clusterData \<or> tokenLimit \<le> 0 then Inr JNull
     else map_sum id JStr
       (if tokenLimit < 20 then
          formatSemanticCompressed (extractEssentialData clusterData) tokenLimit
        else if tokenLimit < 50 then
          formatSemanticCompressed (extractImportantData clusterData) tokenLimit
        else formatSemanticCompressed (extractDetailedData clusterData) tokenLimit))"

text \<open>
  \<^verbatim>\<open>performPredictiveCompression(clusteredIntelligence, strategy, tokenBudget, model)\<close>:
  the object \<^verbatim>\<open>compressedClusters\<close>.
\<close>

definition performPredictiveCompression ::
  "jsval \<Rightarrow> jsval \<Rightarrow> int \<Rightarrow> string \<Rightarrow> jsError + jsval" where
  "performPredictiveCompression clusteredIntelligence strategy tokenBudget model =
    (let clusterPriorities = calculateClusterPriorities clusteredIntelligence strategy;
         tokenAllocation = allocateTokensByPriority clusterPriorities tokenBudget
     in map_sum id (\<lambda>cs. JObj (concat cs))
          (collect
            (map (\<lambda>(clusterName, tokens, prio).
                   (case tokens of
                      None \<Rightarrow> Inr []
                    | Some t \<Rightarrow>
                        if 0 < t then
                          map_sum id (\<lambda>c. [(clusterName, c)])
                            (compressCluster (js_get clusteredIntelligence clusterName) t prio model)
                        else Inr []))
                 tokenAllocation)))"

subsection \<open>The prompt\<close>

text \<open>
  One section of \<^verbatim>\<open>generateOptimizedPrompt\<close>:
  \<^verbatim>\<open>const compressed = this.formatSemanticCompressed(data, limit);\<close>
  \<^verbatim>\<open>if (compressed) sections.push(`TAG{${compressed}}`);\<close>
\<close>

definition promptSection :: "string \<Rightarrow> jsval \<Rightarrow> int \<Rightarrow> jsError + string list" where
  "promptSection tag data tokenLimit =
    (case formatSemanticCompressed data tokenLimit of
       Inl e \<Rightarrow> Inl e
     | Inr compressed \<Rightarrow> Inr (if compressed \<noteq> [] then [tag @ ''{'' @ compressed @ ''}''] else []))"

definition generateOptimizedPrompt :: "jsval \<Rightarrow> string \<Rightarrow> jsval \<Rightarrow> jsError + string" where
  "generateOptimizedPrompt compressedContext messageType strategy =
    map_sum id (\<lambda>sections. join '' '' (concat sections))
      (collect
        [if truthy (js_get compressedContext ''emotional'')
            \<or> truthy (js_get compressedContext ''dynamic'')
         then promptSection ''MICRO''
                (js_spread (js_get compressedContext ''emotional'')
                           (js_get compressedContext ''dynamic'')) 30
         else Inr [],
         if truthy (js_get compressedContext ''contextual'')
         then promptSection ''TOPIC'' (js_get compressedContext ''contextual'') 25 else Inr [],
         if truthy (js_get compressedContext ''core'')
         then promptSection ''CORE'' (js_get compressedContext ''core'') 25 else Inr [],
         if truthy (js_get compressedContext ''behavioral'') \<and> strategy \<noteq> JStr ''minimal''
         then promptSection ''BEHAV'' (js_get compressedContext ''behavioral'') 20 else Inr [],
         if truthy (js_get compressedContext ''cognitive'') \<and> strategy \<noteq> JStr ''minimal''
         then promptSection ''COG'' (js_get compressedContext ''cognitive'') 20 else Inr [],
         if truthy (js_get compressedContext ''predictive'') \<and> strategy = JStr ''comprehensive''
         then promptSection ''PRED'' (js_get compressedContext ''predictive'') 15 else Inr []])"

text \<open>The characters of the sections of a prompt, one more for each to separate them.\<close>

definition cost :: "string list \<Rightarrow> nat" where
  "cost xs = sum_list (map (\<lambda>x. length x + 1) xs)"

subsection \<open>\<^verbatim>\<open>compressForLLM\<close>\<close>

text \<open>
  The options of a call, with the defaults of the destructuring: \<^verbatim>\<open>model = 'gpt-4o'\<close>,
  \<^verbatim>\<open>tokenBudget = null\<close>, \<^verbatim>\<open>qualityTarget = 0.85\<close>, \<^verbatim>\<open>conversationHistory = []\<close>,
  \<^verbatim>\<open>userPreferences = {}\<close>, \<^verbatim>\<open>forceStrategy = null\<close>.
\<close>

record options =
  model :: string
  tokenBudget :: jsval
  qualityTarget :: rat
  conversationHistory :: "jsval list"
  userPreferences :: jsval
  forceStrategy :: jsval

definition defaultOptions :: options where
  "defaultOptions =
    \<lparr>model = ''gpt-4o'', tokenBudget = JNull, qualityTarget = 85 / 100,
     conversationHistory = [], userPreferences = JObj [], forceStrategy = JNull\<rparr>"

text \<open>
  The result: the prompt and, of the metadata, the strategy, the computed budget, the
  estimate of the prompt, the model, the names of the clusters and the error flag. The
  measured time and the ratios computed from it and from the sizes are not modelled.
\<close>

record compression =
  compressedPrompt :: string
  metaStrategy :: jsval
  metaTokenBudget :: "int option"
  metaActualTokens :: "nat option"
  metaModel :: "string option"
  metaClusters :: "string list"
  metaError :: bool

definition getFallbackCompression :: "jsval \<Rightarrow> string \<Rightarrow> compression" where
  "getFallbackCompression intelligenceContext messageType =
    \<lparr>compressedPrompt = ''User shows '' @ messageType @ '' communication pattern.'',
     metaStrategy = JStr ''fallback'', metaTokenBudget = None, metaActualTokens = None,
     metaModel = None, metaClusters = [], metaError = True\<rparr>"

text \<open>
  \<^verbatim>\<open>calculateCompressionMetrics\<close> takes \<^verbatim>\<open>JSON.stringify(original).length\<close>, a
  \<^verbatim>\<open>TypeError\<close> when the context is \<^verbatim>\<open>undefined\<close>; nothing else in it raises.
\<close>

definition calculateCompressionMetrics :: "jsval \<Rightarrow> string \<Rightarrow> jsError + unit" where
  "calculateCompressionMetrics original compressed =
    (case JSON_stringify original of None \<Rightarrow> Inl TypeError | Some s \<Rightarrow> Inr ())"

definition optimizeCompressionQuality :: "jsval \<Rightarrow> rat \<Rightarrow> int \<Rightarrow> jsval" where
  "optimizeCompressionQuality compressedContext target budget = compressedContext"

definition compressSteps ::
  "jsval \<Rightarrow> string \<Rightarrow> rat \<Rightarrow> options \<Rightarrow> jsError + compression" where
  "compressSteps intelligenceContext messageType complexity opts =
    (let tokenBudget_calc =
           calculateOptimalTokenBudget (model opts) messageType complexity
             (length (conversationHistory opts))
     in case clusterIntelligenceData intelligenceContext messageType complexity of
          Inl e \<Rightarrow> Inl e
        | Inr clusteredIntelligence \<Rightarrow>
           (let strategy =
                  js_or (forceStrategy opts)
                    (JStr (selectOptimalStrategy clusteredIntelligence tokenBudget_calc
                             (qualityTarget opts) (model opts)))
            in case performPredictiveCompression clusteredIntelligence strategy
                      tokenBudget_calc (model opts) of
                 Inl e \<Rightarrow> Inl e
               | Inr compressedContext \<Rightarrow>
                  (let optimizedContext =
                         optimizeCompressionQuality compressedContext (qualityTarget opts)
                           tokenBudget_calc
                   in case generateOptimizedPrompt optimizedContext messageType strategy of
                        Inl e \<Rightarrow> Inl e
                      | Inr finalPrompt \<Rightarrow>
                         (case calculateCompressionMetrics intelligenceContext finalPrompt of
                            Inl e \<Rightarrow> Inl e
                          | Inr u \<Rightarrow>
                             Inr \<lparr>compressedPrompt = finalPrompt,
                                  metaStrategy = strategy,
                                  metaTokenBudget = Some tokenBudget_calc,
                                  metaActualTokens = Some (estimateTokenCount finalPrompt),
                                  metaModel = Some (model opts),
                                  metaClusters = js_keys clusteredIntelligence,
                                  metaError = False\<rparr>))))"

definition compressForLLM :: "jsval \<Rightarrow> string \<Rightarrow> rat \<Rightarrow> options \<Rightarrow> compression" where
  "compressForLLM intelligenceContext messageType complexity opts =
    (case compressSteps intelligenceContext messageType complexity opts of
       Inr result \<Rightarrow> result
     | Inl e \<Rightarrow> getFallbackCompression intelligenceContext messageType)"

section \<open>Completion route: extraction, cleaning and commit\<close>

text \<open>
  Source: \<^verbatim>\<open>src/src/routes/completion.js\<close>. The store is a record of the three
  collections the route writes to, and every write succeeds.
\<close>

record memoryMessage =
  memUserId :: string
  memContent :: string
  memRole :: string

text \<open>
  An entry of \<^verbatim>\<open>emotionalLog\<close>, as the code hands it to the store; a field that is
  absent is \<^const>\<open>JUndefined\<close>.
\<close>

record emotionEntry =
  logEmotion :: jsval
  logIntensity :: jsval
  logContext :: jsval

record task =
  taskUserId :: string
  taskType :: jsval
  parameters :: jsval
  status :: string

record store =
  memory :: "memoryMessage list"
  emotionalLog :: "(string \<times> emotionEntry) list"
  tasks :: "task list"
  invalidated :: "string list"

definition emptyStore :: store where
  "emptyStore = \<lparr>memory = [], emotionalLog = [], tasks = [], invalidated = []\<rparr>"

text \<open>
  \<^verbatim>\<open>extractJsonPattern(regex, content, logType)\<close>. The expressions of
  \<^verbatim>\<open>METADATA_PATTERNS\<close> carry the global flag, so \<^verbatim>\<open>content.match(regex)\<close> is the array
  of all matches: \<^verbatim>\<open>match[0]\<close> is the first match and \<^verbatim>\<open>match[1]\<close> the second one.
  The result \<^verbatim>\<open>null\<close> is \<^const>\<open>JNull\<close>.
\<close>

definition extractJsonPattern :: "matcher \<Rightarrow> string \<Rightarrow> jsval \<times> string" where
  "extractJsonPattern regex content =
    (let match = matchAll regex content
     in if length match < 2 then (JNull, content)
        else (let jsonString = trim (match ! 1)
              in case JSON_parse jsonString of
                   Some parsed \<Rightarrow> (parsed, removeFirst content (match ! 0))
                 | None \<Rightarrow> (JNull, content)))"

definition fallbackMsg :: string where
  "fallbackMsg = ''I'm sorry, I wasn't able to provide a proper response. Please try again.''"

definition hasMarker :: "string \<Rightarrow> bool" where
  "hasMarker s =
    (includes_s (toLowerCase s) ''task_inference'' \<or> includes_s (toLowerCase s) ''emotion_log'')"

text \<open>
  \<^verbatim>\<open>cleanResponse(content)\<close>: the chain of replacements, the trimming, the check of
  the lines when a marker is left in any case of letters, and the fallback.
\<close>

definition replaced :: "string \<Rightarrow> string" where
  "replaced content =
    replaceAll re_blankLines [CHR 0x0A]
      (replaceAll re_jsonBlock ''''
        (replaceAll re_cleanup ''''
          (replaceAll re_im '''' content)))"

definition dropMarkerLines :: "string \<Rightarrow> string" where
  "dropMarkerLines cleaned =
    (if hasMarker cleaned
     then trim (join [CHR 0x0A] (filter (\<lambda>line. \<not> hasMarker line) (split (CHR 0x0A) cleaned)))
     else cleaned)"

definition cleanResponse :: "string \<Rightarrow> string" where
  "cleanResponse content =
    (if content = [] then []
     else (let cleaned = dropMarkerLines (trim (replaced content))
           in if cleaned = [] then fallbackMsg else cleaned))"

definition isObjectType :: "jsval \<Rightarrow> bool" where
  "isObjectType v = (case v of JNull \<Rightarrow> True | JArr xs \<Rightarrow> True | JObj kvs \<Rightarrow> True | _ \<Rightarrow> False)"

text \<open>
  \<^verbatim>\<open>processResponseAndSave(fullContent, userPrompt, userId, userCache)\<close>: the store after
  the writes, and the cleaned content.
\<close>

definition commitEmotion :: "jsval \<Rightarrow> string \<Rightarrow> string \<Rightarrow> store \<Rightarrow> store" where
  "commitEmotion inferredEmotion userPrompt userId db =
    (if truthy (js_get inferredEmotion ''emotion'') then
       (let i = js_get inferredEmotion ''intensity'';
            emotionToLog =
              \<lparr>logEmotion = js_get inferredEmotion ''emotion'',
               logIntensity = (if js_ge i 1 \<and> js_le i 10 then i else JUndefined),
               logContext = js_or (js_get inferredEmotion ''context'') (JStr userPrompt)\<rparr>
        in db\<lparr>emotionalLog := emotionalLog db @ [(userId, emotionToLog)]\<rparr>)
     else db)"

definition commitTask :: "jsval \<Rightarrow> string \<Rightarrow> store \<Rightarrow> store" where
  "commitTask inferredTask userId db =
    (if truthy (js_get inferredTask ''taskType'') then
       (let p = js_get inferredTask ''parameters'';
            taskParameters = (if isObjectType p then p else JObj [])
        in db\<lparr>tasks := tasks db @
             [\<lparr>taskUserId = userId, taskType = js_get inferredTask ''taskType'',
               parameters = taskParameters, status = ''queued''\<rparr>]\<rparr>)
     else db)"

definition insertPair :: "string \<Rightarrow> string \<Rightarrow> string \<Rightarrow> store \<Rightarrow> store" where
  "insertPair userId userPrompt assistantContent db =
    db\<lparr>memory := memory db @
       [\<lparr>memUserId = userId, memContent = userPrompt, memRole = ''user''\<rparr>,
        \<lparr>memUserId = userId, memContent = assistantContent, memRole = ''assistant''\<rparr>]\<rparr>"

definition processResponseAndSave ::
  "string \<Rightarrow> string \<Rightarrow> string \<Rightarrow> store \<Rightarrow> store \<times> string" where
  "processResponseAndSave fullContent userPrompt userId db =
    (let (inferredEmotion, fullContent) =
           extractJsonPattern (re_metadata ''EMOTION_LOG'') fullContent;
         (inferredTask, fullContent) =
           extractJsonPattern (re_metadata ''TASK_INFERENCE'') fullContent;
         sanitizedContent = cleanResponse fullContent;
         db = insertPair userId userPrompt sanitizedContent db;
         db = commitEmotion inferredEmotion userPrompt userId db;
         db = commitTask inferredTask userId db;
         db = db\<lparr>invalidated := invalidated db @ [userId]\<rparr>
     in (db, sanitizedContent))"

section \<open>Completion route, optimized variant: extraction and commit\<close>

text \<open>
  Source: \<^verbatim>\<open>src/unnamed/part_001\<close>, lines 320 to 716: the route that talks to the
  llama.cpp endpoint, with \<^verbatim>\<open>extractMetadata\<close>, the stop sequences and the token limit.
\<close>

text \<open>
  \<^verbatim>\<open>content.match(/EMOTION_LOG:?\s*(\{[^}]*\})/)\<close>, without the global flag: the
  leftmost match and its group. The group \<^verbatim>\<open>\{[^}]*\}\<close> ends at the first closing brace,
  as the lazy group of \<^verbatim>\<open>METADATA_PATTERNS\<close> does.
\<close>

definition matchMetadata :: "string \<Rightarrow> string \<Rightarrow> (string \<times> string) option" where
  "matchMetadata marker content =
    (case matchFirst (re_metadata marker) content of
       None \<Rightarrow> None
     | Some (i, n) \<Rightarrow>
         (case metadataGroup marker (drop i content) of
            None \<Rightarrow> None
          | Some (off, g) \<Rightarrow>
              Some (take n (drop i content), take g (drop off (drop i content)))))"

text \<open>\<^verbatim>\<open>/(?:EMOTION_LOG|TASK_INFERENCE):?[^\n]*/\<close>\<close>

definition re_markerLine :: matcher where
  "re_markerLine s =
    (if startsWith s ''EMOTION_LOG''
     then Some (11 + length (takeWhile (\<lambda>c. c \<noteq> CHR 0x0A) (drop 11 s)))
     else if startsWith s ''TASK_INFERENCE''
     then Some (14 + length (takeWhile (\<lambda>c. c \<noteq> CHR 0x0A) (drop 14 s)))
     else None)"

text \<open>\<^verbatim>\<open>/\n{2,}/\<close>\<close>

definition re_newlines :: matcher where
  "re_newlines s =
    (let k = length (takeWhile (\<lambda>c. c = CHR 0x0A) s) in if 2 \<le> k then Some k else None)"

text \<open>\<^verbatim>\<open>extractMetadata(content)\<close>: \<^verbatim>\<open>{ inferredTask, inferredEmotion, cleanContent }\<close>.\<close>

definition extractMarker :: "string \<Rightarrow> string \<Rightarrow> string \<Rightarrow> jsval \<times> string" where
  "extractMarker marker content cleanContent =
    (case matchMetadata marker content of
       None \<Rightarrow> (JNull, cleanContent)
     | Some (m0, m1) \<Rightarrow>
         (case JSON_parse m1 of
            None \<Rightarrow> (JNull, cleanContent)
          | Some parsed \<Rightarrow> (parsed, removeFirst cleanContent m0)))"

definition extractMetadata :: "string \<Rightarrow> jsval \<times> jsval \<times> string" where
  "extractMetadata content =
    (let (inferredEmotion, cleanContent) = extractMarker ''EMOTION_LOG'' content content;
         (inferredTask, cleanContent) = extractMarker ''TASK_INFERENCE'' content cleanContent;
         cleanContent =
           trim (replaceAll re_newlines [CHR 0x0A] (replaceAll re_markerLine '''' cleanContent))
     in (inferredTask, inferredEmotion, cleanContent))"

text \<open>
  \<^verbatim>\<open>processStreamResponse(fullContent, userPrompt, userId)\<close>. The module
  \<^verbatim>\<open>utils/sanitize.js\<close> is not among the sources: \<^verbatim>\<open>sanitizeResponse\<close> is a parameter.
\<close>

definition processStreamResponse ::
  "(string \<Rightarrow> string) \<Rightarrow> string \<Rightarrow> string \<Rightarrow> string \<Rightarrow> store \<Rightarrow> store" where
  "processStreamResponse sanitizeResponse fullContent userPrompt userId db =
    (let (inferredTask, inferredEmotion, cleanContent) = extractMetadata fullContent;
         sanitizedContent = sanitizeResponse cleanContent;
         db = insertPair userId userPrompt sanitizedContent db;
         db = (if truthy (js_get inferredEmotion ''emotion'') then
                 db\<lparr>emotionalLog := emotionalLog db @
                   [(userId,
                     \<lparr>logEmotion = js_get inferredEmotion ''emotion'',
                      logIntensity = js_get inferredEmotion ''intensity'',
                      logContext = js_or (js_get inferredEmotion ''context'') (JStr userPrompt)\<rparr>)]\<rparr>
               else db);
         db = (if truthy (js_get inferredTask ''taskType'') then
                 db\<lparr>tasks := tasks db @
                   [\<lparr>taskUserId = userId, taskType = js_get inferredTask ''taskType'',
                     parameters = js_or (js_get inferredTask ''parameters'') (JObj []),
                     status = ''queued''\<rparr>]\<rparr>
               else db)
     in db)"

section \<open>Completion route: the streaming relay\<close>

text \<open>
  The response \<^verbatim>\<open>res\<close>: the status, whether the head has gone out, the chunks written
  so far in order, and whether \<^verbatim>\<open>res.end()\<close> was called. A write after the end does not
  reach the client.
\<close>

record response =
  statusCode :: nat
  headersSent :: bool
  written :: "string list"
  ended :: bool

definition newResponse :: response where
  "newResponse = \<lparr>statusCode = 200, headersSent = False, written = [], ended = False\<rparr>"

definition res_write :: "string \<Rightarrow> response \<Rightarrow> response" where
  "res_write chunk r =
    (if ended r then r else r\<lparr>written := written r @ [chunk], headersSent := True\<rparr>)"

definition res_end :: "response \<Rightarrow> response" where
  "res_end r = r\<lparr>ended := True, headersSent := True\<rparr>"

definition res_writeHead :: "nat \<Rightarrow> response \<Rightarrow> response" where
  "res_writeHead code r = r\<lparr>statusCode := code\<rparr>"

definition clientBytes :: "response \<Rightarrow> string" where
  "clientBytes r = concat (written r)"

definition doneFrame :: string where
  "doneFrame = ''data: [DONE]'' @ [CHR 0x0A, CHR 0x0A]"

text \<open>
  A property of a response: once it has ended, the last chunk the client got is
  \<^verbatim>\<open>[DONE]\<close>.
\<close>

definition doneLast :: "response \<Rightarrow> bool" where
  "doneLast r = (if ended r then written r \<noteq> [] \<and> last (written r) = doneFrame else True)"

text \<open>\<^verbatim>\<open>`data: ${JSON.stringify({ content })}\n\n`\<close>\<close>

definition contentFrame :: "jsval \<Rightarrow> string" where
  "contentFrame c = ''data: '' @ stringifyVal (JObj [(''content'', c)]) @ [CHR 0x0A, CHR 0x0A]"

text \<open>
  The content frames among the chunks written to a client: the chunks that start as
  \<^verbatim>\<open>data: {"content":\<close>, as every frame of a delta does.
\<close>

definition isContentFrame :: "string \<Rightarrow> bool" where
  "isContentFrame chunk = startsWith chunk ''data: {\"content\":''"

definition contentFrames :: "response \<Rightarrow> string list" where
  "contentFrames r = filter isContentFrame (written r)"

text \<open>
  The state of one streaming request: the variables \<^verbatim>\<open>buffer\<close> and \<^verbatim>\<open>fullContent\<close> of
  the closure, the response and the store.
\<close>

record relay =
  buffer :: string
  fullContent :: string
  res :: response
  db :: store

definition newRelay :: "store \<Rightarrow> relay" where
  "newRelay d = \<lparr>buffer = [], fullContent = [], res = newResponse, db = d\<rparr>"

text \<open>
  The body of the \<^verbatim>\<open>try\<close> for one line of data; a \<^verbatim>\<open>SyntaxError\<close> of \<^verbatim>\<open>JSON.parse\<close>
  and the \<^verbatim>\<open>TypeError\<close> of \<^verbatim>\<open>parsed.choices\<close> on \<^verbatim>\<open>null\<close> are caught and leave the state
  as it is.
\<close>

definition deltaContent :: "jsval \<Rightarrow> jsval" where
  "deltaContent parsed =
    (let choices = js_get parsed ''choices'';
         first = js_get choices ''0'';
         delta = js_get first ''delta''
     in if truthy choices \<and> truthy first \<and> truthy delta then js_get delta ''content''
        else JUndefined)"

definition relayData :: "string \<Rightarrow> relay \<Rightarrow> relay" where
  "relayData data st =
    (case JSON_parse data of
       None \<Rightarrow> st
     | Some parsed \<Rightarrow>
         (let c = deltaContent parsed
          in if truthy c then
               st\<lparr>fullContent := fullContent st @ js_toString c,
                  res := res_write (contentFrame c) (res st)\<rparr>
             else st))"

text \<open>The loop over the complete lines; \<^verbatim>\<open>[DONE]\<close> ends the response and the handler.\<close>

fun relayLines :: "string list \<Rightarrow> relay \<Rightarrow> relay" where
  "relayLines [] st = st"
| "relayLines (line # lines) st =
    (if startsWith line ''data: '' then
       (let data = trim (drop 6 line)
        in if data = ''[DONE]'' then st\<lparr>res := res_end (res_write doneFrame (res st))\<rparr>
           else relayLines lines (relayData data st))
     else relayLines lines st)"

text \<open>
  The handler of \<^verbatim>\<open>data\<close>: \<^verbatim>\<open>buffer = lines.pop() || ''\<close> keeps the last, unfinished
  line (\<^const>\<open>split\<close> returns at least one line).
\<close>

definition onData :: "string \<Rightarrow> relay \<Rightarrow> relay" where
  "onData chunk st =
    (let lines = split (CHR 0x0A) (buffer st @ chunk)
     in relayLines (butlast lines) (st\<lparr>buffer := last lines\<rparr>))"

definition onEnd :: "string \<Rightarrow> string \<Rightarrow> relay \<Rightarrow> relay" where
  "onEnd userPrompt userId st =
    (let st = (if trim (fullContent st) \<noteq> []
               then st\<lparr>db := fst (processResponseAndSave (fullContent st) userPrompt userId (db st))\<rparr>
               else st)
     in st\<lparr>res := res_end (res_write doneFrame (res st))\<rparr>)"

definition onError :: "string \<Rightarrow> relay \<Rightarrow> relay" where
  "onError message st =
    (let r = res st;
         r = (if \<not> headersSent r then res_writeHead 500 r else r);
         r = res_write (''data: {\"error\": \"'' @ message @ ''\"}'' @ [CHR 0x0A, CHR 0x0A]) r
     in st\<lparr>res := res_end r\<rparr>)"

datatype event = Data string | End | Error string

fun handle :: "string \<Rightarrow> string \<Rightarrow> relay \<Rightarrow> event \<Rightarrow> relay" where
  "handle userPrompt userId st (Data chunk) = onData chunk st"
| "handle userPrompt userId st End = onEnd userPrompt userId st"
| "handle userPrompt userId st (Error message) = onError message st"

definition stream :: "string \<Rightarrow> string \<Rightarrow> store \<Rightarrow> event list \<Rightarrow> relay" where
  "stream userPrompt userId d evs = foldl (handle userPrompt userId) (newRelay d) evs"

section \<open>Completion route, optimized variant: the streaming relay\<close>

record optRelay = relay +
  tokenCount :: nat
  streamEnded :: bool

definition newOptRelay :: "store \<Rightarrow> optRelay" where
  "newOptRelay d =
    \<lparr>buffer = [], fullContent = [], res = newResponse, db = d,
     tokenCount = 0, streamEnded = False\<rparr>"

definition isMetadataToken :: "string \<Rightarrow> bool" where
  "isMetadataToken c = (includes_s c ''EMOTION_LOG'' \<or> includes_s c ''TASK_INFERENCE'')"

text \<open>The accumulated content of the optimized variant contains a stop sequence.\<close>

definition stopSeen :: "string list \<Rightarrow> optRelay \<Rightarrow> bool" where
  "stopSeen stop st = list_ex (\<lambda>stopSeq. includes_s (fullContent st) stopSeq) stop"

text \<open>The invariant: a stop sequence in the content has ended the stream.\<close>

definition stopEnds :: "string list \<Rightarrow> optRelay \<Rightarrow> bool" where
  "stopEnds stop st = (if stopSeen stop st then streamEnded st else True)"

text \<open>
  One parsed line of data; the second component says whether the loop over the lines
  goes on (\<^verbatim>\<open>break\<close> is \<^const>\<open>False\<close>). A content that is not a string has no
  \<^verbatim>\<open>trim\<close>: the \<^verbatim>\<open>TypeError\<close> is caught and the loop goes on.
\<close>

definition optDelta :: "string list \<Rightarrow> jsval \<Rightarrow> optRelay \<Rightarrow> optRelay \<times> bool" where
  "optDelta stop parsed st =
    (case js_get parsed ''content'' of
       JStr c \<Rightarrow>
         if trim c \<noteq> [] then
           (let st = st\<lparr>fullContent := fullContent st @ c, tokenCount := tokenCount st + 1\<rparr>;
                shouldStop =
                  (list_ex (\<lambda>stopSeq. includes_s (fullContent st) stopSeq) stop
                   \<or> 800 < tokenCount st)
            in if shouldStop then (st\<lparr>streamEnded := True\<rparr>, False)
               else if isMetadataToken c then (st, True)
               else (st\<lparr>res := res_write (contentFrame (JStr c)) (res st)\<rparr>, True))
         else (st, True)
     | _ \<Rightarrow> (st, True))"

fun optLines :: "string list \<Rightarrow> string list \<Rightarrow> optRelay \<Rightarrow> optRelay" where
  "optLines stop [] st = st"
| "optLines stop (line # lines) st =
    (if startsWith line ''data: '' \<and> 6 < length line then
       (let jsonStr = trim (drop 6 line)
        in if jsonStr = ''[DONE]'' then st\<lparr>streamEnded := True\<rparr>
           else (case JSON_parse jsonStr of
                   None \<Rightarrow> optLines stop lines st
                 | Some parsed \<Rightarrow>
                     (case optDelta stop parsed st of
                        (st', goOn) \<Rightarrow> if goOn then optLines stop lines st' else st')))
     else optLines stop lines st)"

definition optOnData :: "string list \<Rightarrow> string \<Rightarrow> optRelay \<Rightarrow> optRelay" where
  "optOnData stop chunk st =
    (if streamEnded st then st
     else (let lines = split (CHR 0x0A) (buffer st @ chunk)
           in optLines stop (butlast lines) (st\<lparr>buffer := last lines\<rparr>)))"

definition optOnEnd ::
  "(string \<Rightarrow> string) \<Rightarrow> string \<Rightarrow> string \<Rightarrow> optRelay \<Rightarrow> optRelay" where
  "optOnEnd sanitizeResponse userPrompt userId st =
    (let st = (if \<not> streamEnded st
               then st\<lparr>streamEnded := True, res := res_end (res_write doneFrame (res st))\<rparr>
               else st)
     in if trim (fullContent st) \<noteq> []
        then st\<lparr>db := processStreamResponse sanitizeResponse (fullContent st) userPrompt userId (db st)\<rparr>
        else st)"

text \<open>
  \<^verbatim>\<open>`data: ${JSON.stringify({ error: true, message: "Stream error. Please try again." })}\n\n`\<close>
\<close>

definition errorFrame :: string where
  "errorFrame =
    ''data: ''
    @ stringifyVal (JObj [(''error'', JBool True),
                          (''message'', JStr ''Stream error. Please try again.'')])
    @ [CHR 0x0A, CHR 0x0A]"

definition optOnError :: "string \<Rightarrow> optRelay \<Rightarrow> optRelay" where
  "optOnError message st =
    (if \<not> streamEnded st
     then st\<lparr>streamEnded := True, res := res_end (res_write errorFrame (res st))\<rparr>
     else st)"

definition optOnTimeout :: "optRelay \<Rightarrow> optRelay" where
  "optOnTimeout st =
    (if \<not> streamEnded st
     then st\<lparr>streamEnded := True, res := res_end (res_write doneFrame (res st))\<rparr>
     else st)"

definition optOnClose :: "optRelay \<Rightarrow> optRelay" where
  "optOnClose st = (if \<not> streamEnded st then st\<lparr>streamEnded := True\<rparr> else st)"

text \<open>
  The events of one request: upstream data, end and error, the 45 second timer, and the
  client closing the connection.
\<close>

datatype optEvent = OData string | OEnd | OError string | OTimeout | OClose

fun optHandle ::
  "(string \<Rightarrow> string) \<Rightarrow> string list \<Rightarrow> string \<Rightarrow> string \<Rightarrow> optRelay \<Rightarrow> optEvent \<Rightarrow> optRelay" where
  "optHandle san stop userPrompt userId st (OData chunk) = optOnData stop chunk st"
| "optHandle san stop userPrompt userId st OEnd = optOnEnd san userPrompt userId st"
| "optHandle san stop userPrompt userId st (OError message) = optOnError message st"
| "optHandle san stop userPrompt userId st OTimeout = optOnTimeout st"
| "optHandle san stop userPrompt userId st OClose = optOnClose st"

definition optStream ::
  "(string \<Rightarrow> string) \<Rightarrow> string list \<Rightarrow> string \<Rightarrow> string \<Rightarrow> store \<Rightarrow> optEvent list \<Rightarrow> optRelay" where
  "optStream san stop userPrompt userId d evs =
    foldl (optHandle san stop userPrompt userId) (newOptRelay d) evs"

text \<open>The stop sequences of the route when the request gives none.\<close>

definition defaultStop :: "string list" where
  "defaultStop =
    [''USER:'', CHR 0x0A # ''USER:'', CHR 0x0A # ''User:'',
     ''Human:'', CHR 0x0A # ''Human:'',
     [CHR 0x0A, CHR 0x0A, CHR 0x0A], ''---'',
     ''<s>'', ''</s>'', ''[INST]'', ''[/INST]'',
     ''Assistant:'', CHR 0x0A # ''Assistant:'',
     ''...'', ''etc.'']"

section \<open>Emotions route\<close>

text \<open>
  Source: \<^verbatim>\<open>src/src/routes/emotions.js\<close>, \<^verbatim>\<open>POST /\<close>: the status of the response and
  the user's log after the request. The body is the parsed JSON body; \<^verbatim>\<open>user\<close> is the
  log of the user when the user exists. The time stamp, the time zone and the device of
  an entry are not modelled. A \<^verbatim>\<open>notes\<close> that has no \<^verbatim>\<open>trim\<close> raises a \<^verbatim>\<open>TypeError\<close>,
  which the handler answers with status 500.
\<close>

definition isString :: "jsval \<Rightarrow> bool" where
  "isString v = (case v of JStr s \<Rightarrow> True | _ \<Rightarrow> False)"

definition isNumber :: "jsval \<Rightarrow> bool" where
  "isNumber v = (case v of JNum q \<Rightarrow> True | _ \<Rightarrow> False)"

definition postEmotions ::
  "jsval \<Rightarrow> emotionEntry list option \<Rightarrow> nat \<times> emotionEntry list option" where
  "postEmotions body user =
    (let mood = js_get body ''mood'';
         intens = js_get body ''intensity'';
         notes = js_get body ''notes''
     in if \<not> truthy mood \<or> \<not> isString mood \<or> trim (js_toString mood) = [] then (400, user)
        else if \<not> isNumber intens \<or> js_lt intens 1 \<or> js_gt intens 10 then (400, user)
        else (case user of
                None \<Rightarrow> (404, user)
              | Some entries \<Rightarrow>
                  (case notes of
                     JStr n \<Rightarrow>
                       (201, Some (entries @
                          [\<lparr>logEmotion = JStr (trim (js_toString mood)), logIntensity = intens,
                            logContext = js_or (JStr (trim n)) JUndefined\<rparr>]))
                   | JUndefined \<Rightarrow>
                       (201, Some (entries @
                          [\<lparr>logEmotion = JStr (trim (js_toString mood)), logIntensity = intens,
                            logContext = JUndefined\<rparr>]))
                   | JNull \<Rightarrow>
                       (201, Some (entries @
                          [\<lparr>logEmotion = JStr (trim (js_toString mood)), logIntensity = intens,
                            logContext = JUndefined\<rparr>]))
                   | _ \<Rightarrow> (500, user))))"

section \<open>Properties of the intelligence compressor\<close>

subsection \<open>A run\<close>

text \<open>
  The call \<^verbatim>\<open>compressForLLM({}, 'greeting', 5)\<close>, with the default options.
\<close>

lemma run_greeting:
  "compressForLLM (JObj []) ''greeting'' 5 defaultOptions =
    \<lparr>compressedPrompt =
       ''MICRO{0:c,1:s,2::,3:[,4:o,5:b,6:j,7:e,8:c,9:,,10:e,11:n,12:g,13::,14:m,15:o,16:d,17:e,18:r,19:a,20:t,21:e} TOPIC{0:m,1:e,2:s,3::,4:g,5:r,6:e,7:e,8:t,9:i,10:n,11:g,12:,,13:c,14:o,15:m,16::,17:5} CORE{0:p,1:r,2:i,3::,4:a,5:n,6:a,7:,,8:c,9:o,10:m,11:m,12::,13:b,14:a,15:l,16:a,17:n,18:c,19:e,20:d}'',
     metaStrategy = JStr ''minimal'', metaTokenBudget = Some 36,
     metaActualTokens = Some 74, metaModel = Some ''gpt-4o'',
     metaClusters =
       [''core'', ''dynamic'', ''contextual'', ''predictive'',
        ''behavioral'', ''emotional'', ''cognitive''],
     metaError = False\<rparr>"
  by code_simp

subsection \<open>Strategy selection\<close>

lemma budget_standard: "calculateOptimalTokenBudget ''gpt-4o'' ''standard'' 5 3 = 150"
  by code_simp

lemma budget_gpt4_low: "calculateOptimalTokenBudget ''gpt-4'' ''standard'' 0 3 = 50"
  by code_simp

text \<open>
  Claim C9 says that a budget of at most 50 selects \<^verbatim>\<open>minimal\<close> and a budget of at least
  150 selects \<^verbatim>\<open>comprehensive\<close>. The default call (model \<^verbatim>\<open>gpt-4o\<close>, type \<^verbatim>\<open>standard\<close>,
  complexity 5) with a history of three messages has the budget 150 and selects
  \<^verbatim>\<open>balanced\<close>; so does the budget 50 of model \<^verbatim>\<open>gpt-4\<close> at complexity 0.
\<close>

theorem C9_boundary_counterexample:
  "selectOptimalStrategy emptyClusters
     (calculateOptimalTokenBudget ''gpt-4o'' ''standard'' 5 3) (85 / 100) ''gpt-4o''
     = ''balanced''
   \<and> calculateOptimalTokenBudget ''gpt-4o'' ''standard'' 5 3 = 150
   \<and> selectOptimalStrategy emptyClusters
     (calculateOptimalTokenBudget ''gpt-4'' ''standard'' 0 3) (85 / 100) ''gpt-4''
     = ''balanced''
   \<and> calculateOptimalTokenBudget ''gpt-4'' ''standard'' 0 3 = 50"
  by (simp add: budget_standard budget_gpt4_low selectOptimalStrategy_def)

text \<open>
  Claim C9, amended: when the caller forces no strategy and no step of the compression
  raises, the strategy in the metadata is a function of the computed budget \<open>B\<close> alone:
  \<^verbatim>\<open>minimal\<close> for \<open>B < 50\<close>, \<^verbatim>\<open>comprehensive\<close> for \<open>B > 150\<close>, and \<^verbatim>\<open>balanced\<close> for every
  budget from 50 to 150, both included. The budget in the metadata is \<open>B\<close>.
\<close>

theorem C9_strategy_by_budget:
  assumes "\<not> truthy (forceStrategy opts)"
    and "\<not> metaError (compressForLLM ic messageType complexity opts)"
  shows "metaStrategy (compressForLLM ic messageType complexity opts) =
           JStr (let B = calculateOptimalTokenBudget (model opts) messageType complexity
                           (length (conversationHistory opts))
                 in if B < 50 then ''minimal''
                    else if 150 < B then ''comprehensive'' else ''balanced'')
         \<and> metaTokenBudget (compressForLLM ic messageType complexity opts) =
           Some (calculateOptimalTokenBudget (model opts) messageType complexity
                   (length (conversationHistory opts)))"
proof (cases "compressSteps ic messageType complexity opts")
  case (Inl e)
  then have "metaError (compressForLLM ic messageType complexity opts)"
    by (simp add: compressForLLM_def getFallbackCompression_def)
  with assms(2) show ?thesis by simp
next
  case (Inr r)
  then have r: "compressForLLM ic messageType complexity opts = r"
    by (simp add: compressForLLM_def)
  from Inr assms(1) show ?thesis
    unfolding r
    by (auto simp: compressSteps_def Let_def js_or_def selectOptimalStrategy_def
        split: sum.splits)
qed

theorem C9_strategy_by_budget_witness:
  "\<not> truthy (forceStrategy defaultOptions)
   \<and> \<not> metaError (compressForLLM (JObj []) ''greeting'' 5 defaultOptions)
   \<and> metaStrategy (compressForLLM (JObj []) ''greeting'' 5 defaultOptions) = JStr ''minimal''
   \<and> metaTokenBudget (compressForLLM (JObj []) ''greeting'' 5 defaultOptions) = Some 36"
proof -
  have f: "\<not> truthy (forceStrategy defaultOptions)"
    by (simp add: defaultOptions_def)
  have e: "\<not> metaError (compressForLLM (JObj []) ''greeting'' 5 defaultOptions)"
    unfolding run_greeting by simp
  have s: "metaStrategy (compressForLLM (JObj []) ''greeting'' 5 defaultOptions) = JStr ''minimal''"
    "metaTokenBudget (compressForLLM (JObj []) ''greeting'' 5 defaultOptions) = Some 36"
    unfolding run_greeting by simp_all
  from C9_strategy_by_budget [OF f e] f e s show ?thesis
    by simp
qed

subsection \<open>The option \<^verbatim>\<open>tokenBudget\<close>\<close>

text \<open>
  Claim C10: two calls of \<^verbatim>\<open>compressForLLM\<close> that differ only in \<^verbatim>\<open>options.tokenBudget\<close>
  return the same result: the same prompt and the same metadata, the budget among them.
\<close>

theorem C10_tokenBudget_noninterference:
  "compressForLLM ic messageType complexity (opts\<lparr>tokenBudget := a\<rparr>)
   = compressForLLM ic messageType complexity (opts\<lparr>tokenBudget := b\<rparr>)"
proof -
  have "compressSteps ic messageType complexity (opts\<lparr>tokenBudget := v\<rparr>)
        = compressSteps ic messageType complexity opts" for v
    by (simp add: compressSteps_def Let_def cong: sum.case_cong)
  then show ?thesis
    by (simp add: compressForLLM_def)
qed

section \<open>Properties of extraction and cleaning\<close>

subsection \<open>Strings\<close>

lemma trim_Nil_iff: "trim s = [] \<longleftrightarrow> list_all isSpace s"
proof -
  have "trim s = [] \<longleftrightarrow> list_all isSpace (dropWhile isSpace s)"
    by (simp add: trim_def dropWhile_eq_Nil_conv list_all_iff)
  also have "\<dots> \<longleftrightarrow> dropWhile isSpace s = []"
  proof
    assume a: "list_all isSpace (dropWhile isSpace s)"
    show "dropWhile isSpace s = []"
    proof (rule ccontr)
      assume "dropWhile isSpace s \<noteq> []"
      then have "\<not> isSpace (hd (dropWhile isSpace s))"
        by (rule hd_dropWhile)
      moreover from \<open>dropWhile isSpace s \<noteq> []\<close> a have "isSpace (hd (dropWhile isSpace s))"
        by (cases "dropWhile isSpace s") simp_all
      ultimately show False by simp
    qed
  next
    assume e: "dropWhile isSpace s = []"
    show "list_all isSpace (dropWhile isSpace s)"
      unfolding e by simp
  qed
  also have "\<dots> \<longleftrightarrow> list_all isSpace s"
    by (simp add: dropWhile_eq_Nil_conv list_all_iff)
  finally show ?thesis .
qed

lemma startsWith_take: "startsWith s p \<Longrightarrow> length p \<le> n \<Longrightarrow> startsWith (take n s) p"
proof (induction s p arbitrary: n rule: startsWith.induct)
  case (3 c cs p ps)
  then show ?case by (cases n) auto
qed simp_all

lemma startsWith_Cons_hd: "startsWith s (c # p) \<Longrightarrow> \<exists>r. s = c # r"
  by (cases s) auto

lemma trim_keeps_head:
  assumes "\<not> isSpace c"
  shows "\<exists>r. trim (c # s) = c # r"
proof -
  have "dropWhile isSpace (rev s @ [c]) = dropWhile isSpace (rev s) @ [c]"
  proof (induction "rev s" arbitrary: s)
    case Nil
    with assms show ?case by simp
  next
    case (Cons a as)
    then show ?case using assms by (simp add: dropWhile_append3)
  qed
  with assms show ?thesis
    by (simp add: trim_def)
qed

subsection \<open>The cleaner\<close>

text \<open>
  Claim C7 says that the cleaner returns a non-empty result for every input string. The
  first line of \<^verbatim>\<open>cleanResponse\<close> returns the empty string for the empty string.
\<close>

theorem C7_empty_input_counterexample: "cleanResponse '''' = ''''"
  by (simp add: cleanResponse_def)

text \<open>
  Claim C7, amended: for every non-empty input string the cleaner returns a non-empty
  result; when stripping the model tokens, the markers, the JSON blocks and the runs of
  line ends leaves nothing or only white space, and also when the check of the lines
  leaves nothing, the result is the fixed apology string.
\<close>

theorem C7_cleanResponse_fallback:
  assumes "content \<noteq> []"
  shows "cleanResponse content \<noteq> []
    \<and> (list_all isSpace (replaced content) \<longrightarrow> cleanResponse content = fallbackMsg)
    \<and> (dropMarkerLines (trim (replaced content)) = [] \<longrightarrow> cleanResponse content = fallbackMsg)"
proof -
  have ne: "fallbackMsg \<noteq> []"
    by (simp add: fallbackMsg_def)
  have "dropMarkerLines [] = []"
    by (simp add: dropMarkerLines_def hasMarker_def toLowerCase_def)
  then have "list_all isSpace (replaced content) \<Longrightarrow> dropMarkerLines (trim (replaced content)) = []"
    by (simp add: trim_Nil_iff [symmetric])
  with assms ne show ?thesis
    by (auto simp: cleanResponse_def Let_def)
qed

lemma clean_marker_only: "cleanResponse ''EMOTION_LOG: {}'' = fallbackMsg"
  by code_simp

theorem C7_cleanResponse_fallback_witness:
  "''EMOTION_LOG: {}'' \<noteq> '''' \<and> cleanResponse ''EMOTION_LOG: {}'' \<noteq> []
   \<and> cleanResponse ''EMOTION_LOG: {}'' = fallbackMsg"
  using C7_cleanResponse_fallback [of "''EMOTION_LOG: {}''"] clean_marker_only
  by simp

subsection \<open>Extraction with the global expressions\<close>

lemma re_metadata_Some:
  assumes "re_metadata marker s = Some n"
  shows "startsWith s marker \<and> length marker \<le> n"
  using assms
  by (auto simp: re_metadata_def metadataGroup_def split: if_splits prod.splits option.splits)

lemma matchAll_metadata_starts:
  "m \<in> set (matchAll (re_metadata marker) s) \<Longrightarrow> startsWith m marker"
proof (induction "re_metadata marker" s rule: matchAll.induct)
  case 1
  then show ?case by simp
next
  case (2 c cs)
  show ?case
  proof (cases "re_metadata marker (c # cs)")
    case None
    with 2 show ?thesis by simp
  next
    case (Some n)
    show ?thesis
    proof (cases "n = 0")
      case True
      with 2 Some show ?thesis by simp
    next
      case False
      from re_metadata_Some [OF Some]
      have "startsWith (take n (c # cs)) marker"
        by (auto intro: startsWith_take)
      with 2 Some False show ?thesis by auto
    qed
  qed
qed

lemma tokenize_E: "tokenize (CHR ''E'' # cs) = None"
  by (simp add: isJsonSpace_def punct_def isDigit_def keyword_def)

lemma tokenize_T: "tokenize (CHR ''T'' # cs) = None"
  by (simp add: isJsonSpace_def punct_def isDigit_def keyword_def)

lemma tokenize_letter:
  assumes "c = CHR ''E'' \<or> c = CHR ''T''"
  shows "tokenize (c # cs) = None"
proof -
  from assms consider "c = CHR ''E''" | "c = CHR ''T''" by blast
  then show ?thesis
  proof cases
    case 1
    then show ?thesis by (simp only: tokenize_E)
  next
    case 2
    then show ?thesis by (simp only: tokenize_T)
  qed
qed

lemma JSON_parse_marker:
  assumes "startsWith m marker" and "marker = ''EMOTION_LOG'' \<or> marker = ''TASK_INFERENCE''"
  shows "JSON_parse (trim m) = None"
proof -
  from assms obtain c r where m: "m = c # r" and c: "c = CHR ''E'' \<or> c = CHR ''T''"
    by (cases m) auto
  from c have "\<not> isSpace c"
    by (auto simp: isSpace_def)
  then obtain r' where "trim (c # r) = c # r'"
    using trim_keeps_head by blast
  with m have "tokenize (trim m) = tokenize (c # r')"
    by simp
  also have "\<dots> = None"
    using c by (rule tokenize_letter)
  finally have tk: "tokenize (trim m) = None" .
  show ?thesis
    unfolding JSON_parse_def tk by simp
qed

text \<open>
  With the global flag, \<^verbatim>\<open>match[1]\<close> is a whole match, which starts with the name of
  the marker and is no JSON text: \<^verbatim>\<open>extractJsonPattern\<close> returns \<^verbatim>\<open>[null, content]\<close> for
  every content.
\<close>

lemma extractJsonPattern_null:
  assumes "marker = ''EMOTION_LOG'' \<or> marker = ''TASK_INFERENCE''"
  shows "extractJsonPattern (re_metadata marker) content = (JNull, content)"
proof (cases "length (matchAll (re_metadata marker) content) < 2")
  case True
  then show ?thesis by (simp add: extractJsonPattern_def)
next
  case False
  then have "matchAll (re_metadata marker) content ! 1 \<in> set (matchAll (re_metadata marker) content)"
    by simp
  then have "startsWith (matchAll (re_metadata marker) content ! 1) marker"
    by (rule matchAll_metadata_starts)
  from JSON_parse_marker [OF this assms] False show ?thesis
    by (simp add: extractJsonPattern_def Let_def)
qed

lemma processResponseAndSave_eq:
  "processResponseAndSave content userPrompt userId d =
    ((insertPair userId userPrompt (cleanResponse content) d)
       \<lparr>invalidated := invalidated d @ [userId]\<rparr>,
     cleanResponse content)"
proof -
  have e: "extractJsonPattern (re_metadata ''EMOTION_LOG'') content = (JNull, content)"
    by (rule extractJsonPattern_null) simp
  have t: "extractJsonPattern (re_metadata ''TASK_INFERENCE'') content = (JNull, content)"
    by (rule extractJsonPattern_null) simp
  have g: "js_get JNull k = JUndefined" for k
    by simp
  show ?thesis
    unfolding processResponseAndSave_def e t Let_def prod.case commitEmotion_def commitTask_def g
    by (simp add: insertPair_def)
qed

subsection \<open>A marker that is well formed and not returned\<close>

lemma parse_sad:
  "JSON_parse ''{\"emotion\":\"sad\",\"intensity\":6}''
   = Some (JObj [(''emotion'', JStr ''sad''), (''intensity'', JNum 6)])"
  by code_simp

text \<open>
  Claim C3, at a failing input of \<^verbatim>\<open>routes/completion.js\<close>: the content holds one marker
  whose JSON is well formed, and \<^verbatim>\<open>extractJsonPattern\<close> returns \<^verbatim>\<open>null\<close> and the content as
  it was; nothing is appended to the emotional log.
\<close>

theorem C3_single_marker_not_returned:
  "extractJsonPattern (re_metadata ''EMOTION_LOG'')
     ''I hear you. EMOTION_LOG: {\"emotion\":\"sad\",\"intensity\":6}''
   = (JNull, ''I hear you. EMOTION_LOG: {\"emotion\":\"sad\",\"intensity\":6}'')
   \<and> JSON_parse ''{\"emotion\":\"sad\",\"intensity\":6}''
     = Some (JObj [(''emotion'', JStr ''sad''), (''intensity'', JNum 6)])
   \<and> emotionalLog (fst (processResponseAndSave
       ''I hear you. EMOTION_LOG: {\"emotion\":\"sad\",\"intensity\":6}'' ''hello'' ''u1''
       emptyStore)) = []"
proof -
  have "extractJsonPattern (re_metadata ''EMOTION_LOG'')
     ''I hear you. EMOTION_LOG: {\"emotion\":\"sad\",\"intensity\":6}''
   = (JNull, ''I hear you. EMOTION_LOG: {\"emotion\":\"sad\",\"intensity\":6}'')"
    by (rule extractJsonPattern_null) simp
  moreover have "emotionalLog (fst (processResponseAndSave
       ''I hear you. EMOTION_LOG: {\"emotion\":\"sad\",\"intensity\":6}'' ''hello'' ''u1''
       emptyStore)) = []"
    unfolding processResponseAndSave_eq
    by (simp add: insertPair_def emptyStore_def)
  ultimately show ?thesis
    using parse_sad by simp
qed

text \<open>
  The optimized variant returns the first match of the expression, well formed or not: a
  first marker that does not parse hides a second one that does.
\<close>

lemma extractMetadata_first_malformed:
  "extractMetadata ''EMOTION_LOG: {bad} EMOTION_LOG: {\"emotion\":\"joy\"}''
   = (JNull, JNull, '''')"
  by code_simp

subsection \<open>Intensity of a committed emotion\<close>

lemma extractMetadata_sad99:
  "extractMetadata ''EMOTION_LOG: {\"emotion\":\"sad\",\"intensity\":99}''
   = (JNull, JObj [(''emotion'', JStr ''sad''), (''intensity'', JNum 99)], '''')"
  by code_simp

text \<open>
  Claim C4, at a failing input of the optimized variant: the stream delivers a marker
  with intensity 99, and \<^verbatim>\<open>processStreamResponse\<close> appends an entry with intensity 99 to
  the emotional log, whatever \<^verbatim>\<open>sanitizeResponse\<close> is.
\<close>

theorem C4_optimized_commits_out_of_range:
  "emotionalLog (processStreamResponse sanitizeResponse
      ''EMOTION_LOG: {\"emotion\":\"sad\",\"intensity\":99}'' ''hello'' ''u1'' emptyStore)
   = [(''u1'', \<lparr>logEmotion = JStr ''sad'', logIntensity = JNum 99,
                logContext = JStr ''hello''\<rparr>)]"
  unfolding processStreamResponse_def extractMetadata_sad99
  by (simp add: insertPair_def emptyStore_def js_or_def)

text \<open>The other two paths keep the range.\<close>

lemma commitEmotion_intensity:
  "emotionalLog (commitEmotion inferredEmotion userPrompt userId d) = emotionalLog d
   \<or> (\<exists>e. emotionalLog (commitEmotion inferredEmotion userPrompt userId d)
            = emotionalLog d @ [(userId, e)]
          \<and> (logIntensity e = JUndefined
               \<or> js_ge (logIntensity e) 1 \<and> js_le (logIntensity e) 10))"
  by (simp add: commitEmotion_def Let_def)

lemma postEmotions_intensity:
  assumes "postEmotions body (Some entries) = (201, Some entries')"
  shows "\<exists>e q. entries' = entries @ [e] \<and> logIntensity e = JNum q \<and> 1 \<le> q \<and> q \<le> 10"
proof -
  from assms obtain q where q: "js_get body ''intensity'' = JNum q"
    by (cases "js_get body ''intensity''")
      (auto simp: postEmotions_def Let_def isNumber_def split: if_splits)
  with assms have "1 \<le> q \<and> q \<le> 10"
    by (auto simp: postEmotions_def Let_def isNumber_def js_lt_def js_gt_def
        split: if_splits)
  with assms q show ?thesis
    by (auto simp: postEmotions_def Let_def split: if_splits jsval.splits)
qed

section \<open>Properties of the streaming relay\<close>

subsection \<open>Markers on the wire\<close>

text \<open>
  Claim C1, at a failing input of \<^verbatim>\<open>routes/completion.js\<close>: one delta whose content
  holds a marker is written to the client as it is.
\<close>

theorem C1_marker_forwarded:
  "clientBytes (res (stream ''hello'' ''u1'' emptyStore
      [Data ''data: {\"choices\":[{\"delta\":{\"content\":\"EMOTION_LOG: {}\"}}]}\<newline>'']))
   = ''data: {\"content\":\"EMOTION_LOG: {}\"}\<newline>\<newline>''
   \<and> includes_s
     (clientBytes (res (stream ''hello'' ''u1'' emptyStore
        [Data ''data: {\"choices\":[{\"delta\":{\"content\":\"EMOTION_LOG: {}\"}}]}\<newline>''])))
     ''EMOTION_LOG''"
  by code_simp

text \<open>
  The optimized variant tests each delta alone: a marker that arrives in two deltas is
  forwarded in two frames.
\<close>

lemma optimized_split_marker_forwarded:
  "written (res (optStream (\<lambda>s. s) defaultStop ''hello'' ''u1'' emptyStore
      [OData ''data: {\"content\":\"EMOTIO\"}\<newline>'',
       OData ''data: {\"content\":\"N_LOG: {}\"}\<newline>'']))
   = [''data: {\"content\":\"EMOTIO\"}\<newline>\<newline>'',
      ''data: {\"content\":\"N_LOG: {}\"}\<newline>\<newline>'']"
  by code_simp

text \<open>What the optimized variant writes for a delta is a frame of a content without marker.\<close>

lemma optDelta_written:
  assumes "\<not> ended (res st)"
  shows "written (res (fst (optDelta stop parsed st))) = written (res st)
    \<or> (\<exists>c. \<not> isMetadataToken c
          \<and> written (res (fst (optDelta stop parsed st)))
              = written (res st) @ [contentFrame (JStr c)])"
  using assms
  by (auto simp: optDelta_def Let_def res_write_def split: jsval.splits)

subsection \<open>The memory pair\<close>

lemma db_relayData: "db (relayData data st) = db st"
  by (simp add: relayData_def Let_def split: option.splits)

lemma db_relayLines: "db (relayLines ls st) = db st"
  by (induction ls arbitrary: st) (simp_all add: Let_def db_relayData)

lemma db_onData: "db (onData chunk st) = db st"
  by (simp add: onData_def Let_def db_relayLines)

lemma db_Data: "db (foldl (handle p u) st (map Data chunks)) = db st"
  by (induction chunks arbitrary: st) (simp_all add: db_onData)

lemma doneLast_write: "doneLast r \<Longrightarrow> doneLast (res_write w r)"
  by (simp add: doneLast_def res_write_def)

lemma doneLast_done: "doneLast r \<Longrightarrow> doneLast (res_end (res_write doneFrame r))"
  by (simp add: doneLast_def res_write_def res_end_def)

lemma doneLast_relayData: "doneLast (res st) \<Longrightarrow> doneLast (res (relayData data st))"
  by (simp add: relayData_def Let_def doneLast_write split: option.splits)

lemma doneLast_relayLines: "doneLast (res st) \<Longrightarrow> doneLast (res (relayLines ls st))"
  by (induction ls arbitrary: st) (simp_all add: Let_def doneLast_relayData doneLast_done)

lemma doneLast_onData: "doneLast (res st) \<Longrightarrow> doneLast (res (onData chunk st))"
  by (simp add: onData_def Let_def doneLast_relayLines)

lemma doneLast_Data:
  "doneLast (res st) \<Longrightarrow> doneLast (res (foldl (handle p u) st (map Data chunks)))"
  by (induction chunks arbitrary: st) (simp_all add: doneLast_onData)

lemma ended_done: "ended (res_end (res_write doneFrame r))"
  by (simp add: res_end_def)

text \<open>
  Claim C2 says that the pair is committed also when the upstream ends with no content.
  The handler of \<^verbatim>\<open>end\<close> saves only when \<^verbatim>\<open>fullContent.trim()\<close> is not empty: a stream
  that ends at once gives the client \<^verbatim>\<open>[DONE]\<close> and commits nothing.
\<close>

theorem C2_empty_stream_counterexample:
  "written (res (stream ''hello'' ''u1'' emptyStore [End])) = [''data: [DONE]\<newline>\<newline>'']
   \<and> memory (db (stream ''hello'' ''u1'' emptyStore [End])) = []"
  by code_simp

text \<open>
  Claim C2, amended: a streaming completion whose upstream delivers its data and ends
  gives the client the terminal \<^verbatim>\<open>[DONE]\<close>; when the accumulated content is not blank it
  appends exactly one memory message with role \<^verbatim>\<open>user\<close> whose content is the prompt,
  followed by exactly one with role \<^verbatim>\<open>assistant\<close> for the same user, whose content is the
  cleaned content; when the content is empty or blank it appends nothing.
\<close>

theorem C2_memory_pair:
  "memory (db (stream userPrompt userId d (map Data chunks @ [End])))
     = (if trim (fullContent (stream userPrompt userId d (map Data chunks))) = []
        then memory d
        else memory d @
          [\<lparr>memUserId = userId, memContent = userPrompt, memRole = ''user''\<rparr>,
           \<lparr>memUserId = userId,
            memContent = cleanResponse (fullContent (stream userPrompt userId d (map Data chunks))),
            memRole = ''assistant''\<rparr>])
   \<and> ended (res (stream userPrompt userId d (map Data chunks @ [End])))
   \<and> written (res (stream userPrompt userId d (map Data chunks @ [End]))) \<noteq> []
   \<and> last (written (res (stream userPrompt userId d (map Data chunks @ [End])))) = doneFrame"
proof -
  define st where "st = stream userPrompt userId d (map Data chunks)"
  have fin: "stream userPrompt userId d (map Data chunks @ [End]) = onEnd userPrompt userId st"
    by (simp add: stream_def st_def)
  have d: "db st = d"
    by (simp add: st_def stream_def db_Data newRelay_def)
  have "doneLast (res (newRelay d))"
    by (simp add: doneLast_def newRelay_def newResponse_def)
  then have "doneLast (res st)"
    unfolding st_def stream_def by (rule doneLast_Data)
  then have "doneLast (res (onEnd userPrompt userId st))"
    by (simp add: onEnd_def Let_def doneLast_done)
  moreover have e: "ended (res (onEnd userPrompt userId st))"
    by (simp add: onEnd_def Let_def ended_done)
  ultimately have w: "written (res (onEnd userPrompt userId st)) \<noteq> []
      \<and> last (written (res (onEnd userPrompt userId st))) = doneFrame"
    by (simp add: doneLast_def)
  have m: "memory (db (onEnd userPrompt userId st))
     = (if trim (fullContent st) = [] then memory d
        else memory d @
          [\<lparr>memUserId = userId, memContent = userPrompt, memRole = ''user''\<rparr>,
           \<lparr>memUserId = userId, memContent = cleanResponse (fullContent st),
            memRole = ''assistant''\<rparr>])"
    by (simp add: onEnd_def Let_def processResponseAndSave_eq insertPair_def d)
  from m e w show ?thesis
    unfolding fin st_def [symmetric] by simp
qed

subsection \<open>Errors of the upstream\<close>

lemma errorFrame_text:
  "errorFrame = ''data: {\"error\":true,\"message\":\"Stream error. Please try again.\"}\<newline>\<newline>''"
  by code_simp

text \<open>
  Claim C6 says that the error event is followed by a terminal \<^verbatim>\<open>[DONE]\<close>. After one
  delta and an error of the upstream, the client of \<^verbatim>\<open>routes/completion.js\<close> has the
  delta and the event \<^verbatim>\<open>{"error": "boom"}\<close>, and the client of the optimized variant has the
  delta and the event \<^verbatim>\<open>{"error":true,"message":...}\<close>; both responses have ended, and
  neither has a \<^verbatim>\<open>[DONE]\<close>.
\<close>

theorem C6_no_done_counterexample:
  "written (res (stream ''hello'' ''u1'' emptyStore
      [Data ''data: {\"choices\":[{\"delta\":{\"content\":\"Hi\"}}]}\<newline>'', Error ''boom'']))
   = [''data: {\"content\":\"Hi\"}\<newline>\<newline>'', ''data: {\"error\": \"boom\"}\<newline>\<newline>'']
   \<and> ended (res (stream ''hello'' ''u1'' emptyStore
      [Data ''data: {\"choices\":[{\"delta\":{\"content\":\"Hi\"}}]}\<newline>'', Error ''boom'']))
   \<and> written (res (optStream (\<lambda>s. s) defaultStop ''hello'' ''u1'' emptyStore
      [OData ''data: {\"content\":\"Hi\"}\<newline>'', OError ''boom'']))
   = [''data: {\"content\":\"Hi\"}\<newline>\<newline>'',
      ''data: {\"error\":true,\"message\":\"Stream error. Please try again.\"}\<newline>\<newline>'']
   \<and> ended (res (optStream (\<lambda>s. s) defaultStop ''hello'' ''u1'' emptyStore
      [OData ''data: {\"content\":\"Hi\"}\<newline>'', OError ''boom'']))"
  by code_simp

text \<open>
  Claim C6, amended: when the upstream fails while the response is open, the client
  receives one more event and the response ends, with no \<^verbatim>\<open>[DONE]\<close>. In
  \<^verbatim>\<open>routes/completion.js\<close> the event is \<^verbatim>\<open>data: {"error": "<message>"}\<close>, and the status
  stays as it is when the head has been sent and becomes 500 when nothing has been
  written yet. In the optimized variant, when the stream has not been ended before, the
  event is \<^verbatim>\<open>data: {"error":true,"message":"Stream error. Please try again."}\<close> and the
  status stays as it is.
\<close>

theorem C6_error_event:
  assumes "\<not> ended (res st)" and "\<not> streamEnded ost" and "\<not> ended (res ost)"
  shows "written (res (onError message st))
           = written (res st) @ [''data: {\"error\": \"'' @ message @ ''\"}\<newline>\<newline>'']
    \<and> ended (res (onError message st))
    \<and> statusCode (res (onError message st))
          = (if headersSent (res st) then statusCode (res st) else 500)
    \<and> written (res (optOnError message ost))
          = written (res ost)
            @ [''data: {\"error\":true,\"message\":\"Stream error. Please try again.\"}\<newline>\<newline>'']
    \<and> ended (res (optOnError message ost))
    \<and> statusCode (res (optOnError message ost)) = statusCode (res ost)"
  using assms
  by (simp add: onError_def optOnError_def Let_def res_write_def res_end_def res_writeHead_def
      errorFrame_text)

theorem C6_error_event_witness:
  "\<not> ended (res (newRelay emptyStore)) \<and> \<not> streamEnded (newOptRelay emptyStore)
   \<and> \<not> ended (res (newOptRelay emptyStore))
   \<and> written (res (onError ''boom'' (newRelay emptyStore)))
       = [''data: {\"error\": \"boom\"}\<newline>\<newline>'']
   \<and> statusCode (res (onError ''boom'' (newRelay emptyStore))) = 500
   \<and> written (res (optOnError ''boom'' (newOptRelay emptyStore)))
       = [''data: {\"error\":true,\"message\":\"Stream error. Please try again.\"}\<newline>\<newline>'']
   \<and> statusCode (res (optOnError ''boom'' (newOptRelay emptyStore))) = 200"
proof -
  have a: "\<not> ended (res (newRelay emptyStore))"
    by (simp add: newRelay_def newResponse_def)
  have b: "\<not> streamEnded (newOptRelay emptyStore)"
    by (simp add: newOptRelay_def)
  have c: "\<not> ended (res (newOptRelay emptyStore))"
    by (simp add: newOptRelay_def newResponse_def)
  have h: "\<not> headersSent (res (newRelay emptyStore))"
      "statusCode (res (newOptRelay emptyStore)) = 200"
      "written (res (newRelay emptyStore)) = []"
      "written (res (newOptRelay emptyStore)) = []"
    by (simp_all add: newRelay_def newOptRelay_def newResponse_def)
  from C6_error_event [OF a b c, of "''boom''"] a b c h show ?thesis
    by simp
qed

subsection \<open>Stop sequences\<close>

text \<open>
  Claim C5 speaks of every streaming completion. The relay of \<^verbatim>\<open>routes/completion.js\<close>
  hands the stop sequences to the upstream request and does not look at the content:
  after the delta \<^verbatim>\<open>a---\<close> the accumulated content contains the stop sequence \<^verbatim>\<open>---\<close> of
  its default list, and the next delta is forwarded.
\<close>

theorem C5_completion_counterexample:
  "includes_s (fullContent (stream ''hello'' ''u1'' emptyStore
      [Data ''data: {\"choices\":[{\"delta\":{\"content\":\"a---\"}}]}\<newline>''])) ''---''
   \<and> written (res (stream ''hello'' ''u1'' emptyStore
      [Data ''data: {\"choices\":[{\"delta\":{\"content\":\"a---\"}}]}\<newline>'',
       Data ''data: {\"choices\":[{\"delta\":{\"content\":\"b\"}}]}\<newline>'']))
   = [''data: {\"content\":\"a---\"}\<newline>\<newline>'', ''data: {\"content\":\"b\"}\<newline>\<newline>'']"
  by code_simp

lemma stopEnds_optDelta: "stopEnds stop st \<Longrightarrow> stopEnds stop (fst (optDelta stop parsed st))"
  by (auto simp: optDelta_def Let_def stopEnds_def stopSeen_def split: jsval.splits)

lemma optDelta_stop_not_written: "optDelta stop parsed st = (st', False) \<Longrightarrow> res st' = res st"
  by (auto simp: optDelta_def Let_def split: jsval.splits if_splits)

lemma stopEnds_optLines: "stopEnds stop st \<Longrightarrow> stopEnds stop (optLines stop ls st)"
proof (induction ls arbitrary: st)
  case Nil
  then show ?case by simp
next
  case (Cons line ls)
  show ?case
  proof (cases "startsWith line ''data: '' \<and> 6 < length line")
    case False
    with Cons show ?thesis by auto
  next
    case True
    show ?thesis
    proof (cases "trim (drop 6 line) = ''[DONE]''")
      case isDone: True
      with True show ?thesis
        by (simp add: stopEnds_def stopSeen_def)
    next
      case notdone: False
      show ?thesis
      proof (cases "JSON_parse (trim (drop 6 line))")
        case None
        with True notdone Cons show ?thesis by simp
      next
        case (Some parsed)
        obtain st' goOn where d: "optDelta stop parsed st = (st', goOn)"
          by (cases "optDelta stop parsed st")
        from stopEnds_optDelta [OF Cons.prems, of parsed] d have s: "stopEnds stop st'"
          by simp
        from Cons.IH [OF s] s True notdone Some d show ?thesis
          by simp
      qed
    qed
  qed
qed

lemma stopEnds_optHandle:
  "stopEnds stop st \<Longrightarrow> stopEnds stop (optHandle san stop p u st ev)"
proof (cases ev)
  case (OData chunk)
  assume "stopEnds stop st"
  then have "stopEnds stop (st\<lparr>buffer := b\<rparr>)" for b
    by (simp add: stopEnds_def stopSeen_def)
  then show ?thesis
    using OData \<open>stopEnds stop st\<close>
    by (simp add: optOnData_def Let_def stopEnds_optLines)
next
  case OEnd
  assume "stopEnds stop st"
  with OEnd show ?thesis
    by (simp add: optOnEnd_def Let_def stopEnds_def stopSeen_def)
next
  case (OError m)
  assume "stopEnds stop st"
  with OError show ?thesis
    by (simp add: optOnError_def stopEnds_def stopSeen_def)
next
  case OTimeout
  assume "stopEnds stop st"
  with OTimeout show ?thesis
    by (simp add: optOnTimeout_def stopEnds_def stopSeen_def)
next
  case OClose
  assume "stopEnds stop st"
  with OClose show ?thesis
    by (simp add: optOnClose_def stopEnds_def stopSeen_def)
qed

lemma stopEnds_run:
  "stopEnds stop st \<Longrightarrow> stopEnds stop (foldl (optHandle san stop p u) st evs)"
  by (induction evs arbitrary: st) (simp_all add: stopEnds_optHandle)

lemma stopEnds_new:
  assumes "[] \<notin> set stop"
  shows "stopEnds stop (newOptRelay d)"
proof -
  have "\<not> list_ex (\<lambda>stopSeq. includes_s [] stopSeq) stop"
    using assms by (induction stop) auto
  then show ?thesis
    by (simp add: stopEnds_def stopSeen_def newOptRelay_def)
qed

text \<open>After the stream has ended, no handler writes.\<close>

lemma ended_optHandle:
  assumes "streamEnded st"
  shows "res (optHandle san stop p u st ev) = res st \<and> streamEnded (optHandle san stop p u st ev)"
  using assms
  by (cases ev)
    (simp_all add: optOnData_def optOnEnd_def optOnError_def optOnTimeout_def optOnClose_def
      Let_def)

lemma ended_run:
  "streamEnded st \<Longrightarrow> res (foldl (optHandle san stop p u) st evs) = res st"
proof (induction evs arbitrary: st)
  case Nil
  then show ?case by simp
next
  case (Cons ev evs)
  from ended_optHandle [OF Cons.prems, of san stop p u ev]
  have "res (optHandle san stop p u st ev) = res st"
    and "streamEnded (optHandle san stop p u st ev)"
    by simp_all
  with Cons.IH [of "optHandle san stop p u st ev"] show ?case
    by simp
qed

text \<open>The frame of a delta is a content frame; the other chunks of the route are not.\<close>

lemma quote_content: "quote ''content'' = ''\"content\"''"
  by code_simp

lemma contentFrame_isContentFrame: "c \<noteq> JUndefined \<Longrightarrow> isContentFrame (contentFrame c)"
  by (simp add: isContentFrame_def contentFrame_def quote_content)

lemma doneFrame_no_content: "\<not> isContentFrame doneFrame"
  by (simp add: isContentFrame_def doneFrame_def)

lemma errorFrame_no_content: "\<not> isContentFrame errorFrame"
  by code_simp

lemma contentFrames_other:
  "\<not> isContentFrame w \<Longrightarrow> contentFrames (res_end (res_write w r)) = contentFrames r"
  by (simp add: contentFrames_def res_end_def res_write_def)

text \<open>With an empty stop sequence every delta stops the stream, and none is written.\<close>

lemma includes_s_Nil: "includes_s s [] = True"
  by (cases s) simp_all

lemma stopSeen_empty: "[] \<in> set stop \<Longrightarrow> list_ex (\<lambda>stopSeq. includes_s s stopSeq) stop"
  unfolding list_ex_iff by (rule bexI [of _ "[]"]) (simp_all add: includes_s_Nil)

lemma optDelta_empty_stop: "[] \<in> set stop \<Longrightarrow> res (fst (optDelta stop parsed st)) = res st"
  by (auto simp: optDelta_def Let_def stopSeen_empty split: jsval.splits)

lemma optLines_empty_stop: "[] \<in> set stop \<Longrightarrow> res (optLines stop ls st) = res st"
proof (induction ls arbitrary: st)
  case Nil
  then show ?case by simp
next
  case (Cons line ls)
  show ?case
  proof (cases "startsWith line ''data: '' \<and> 6 < length line")
    case False
    with Cons show ?thesis by auto
  next
    case True
    show ?thesis
    proof (cases "trim (drop 6 line) = ''[DONE]''")
      case isDone: True
      with True show ?thesis by simp
    next
      case notdone: False
      show ?thesis
      proof (cases "JSON_parse (trim (drop 6 line))")
        case None
        with True notdone Cons show ?thesis by simp
      next
        case (Some parsed)
        obtain st' goOn where d: "optDelta stop parsed st = (st', goOn)"
          by (cases "optDelta stop parsed st")
        from optDelta_empty_stop [OF Cons.prems, of parsed st] d have r: "res st' = res st"
          by simp
        from Cons.IH [OF Cons.prems, of st'] r True notdone Some d show ?thesis
          by simp
      qed
    qed
  qed
qed

lemma empty_stop_optHandle:
  assumes "[] \<in> set stop"
  shows "contentFrames (res (optHandle san stop p u st ev)) = contentFrames (res st)"
proof (cases ev)
  case (OData chunk)
  with assms show ?thesis
    by (simp add: optOnData_def Let_def optLines_empty_stop)
next
  case OEnd
  then show ?thesis
    by (simp add: optOnEnd_def Let_def contentFrames_other doneFrame_no_content)
next
  case (OError m)
  then show ?thesis
    by (simp add: optOnError_def contentFrames_other errorFrame_no_content)
next
  case OTimeout
  then show ?thesis
    by (simp add: optOnTimeout_def contentFrames_other doneFrame_no_content)
next
  case OClose
  then show ?thesis
    by (simp add: optOnClose_def)
qed

lemma empty_stop_run:
  "[] \<in> set stop \<Longrightarrow>
    contentFrames (res (foldl (optHandle san stop p u) st evs)) = contentFrames (res st)"
  by (induction evs arbitrary: st) (simp_all add: empty_stop_optHandle)

text \<open>
  Claim C5, amended: in the optimized variant, once the accumulated content contains
  one of the stop sequences, no content frame is written to the client afterwards,
  whatever events follow: upstream data, end or error, the timer, the client closing.
  In \<^verbatim>\<open>routes/completion.js\<close> the stop sequences are given to the upstream request, and
  the relay forwards every content delta it receives.
\<close>

theorem C5_optimized_stop:
  assumes "stopSeen stop (optStream san stop p u d evs)"
  shows "contentFrames (res (optStream san stop p u d (evs @ evs')))
         = contentFrames (res (optStream san stop p u d evs))"
proof (cases "[] \<in> set stop")
  case True
  then have "contentFrames (res (foldl (optHandle san stop p u) (optStream san stop p u d evs) evs'))
      = contentFrames (res (optStream san stop p u d evs))"
    by (rule empty_stop_run)
  then show ?thesis
    by (simp add: optStream_def)
next
  case False
  then have "stopEnds stop (optStream san stop p u d evs)"
    unfolding optStream_def by (intro stopEnds_run stopEnds_new)
  with assms have "streamEnded (optStream san stop p u d evs)"
    by (simp add: stopEnds_def)
  then have "res (foldl (optHandle san stop p u) (optStream san stop p u d evs) evs')
      = res (optStream san stop p u d evs)"
    by (rule ended_run)
  then show ?thesis
    by (simp add: optStream_def)
qed

lemma stop_run:
  "stopSeen defaultStop (optStream (\<lambda>s. s) defaultStop ''hello'' ''u1'' emptyStore
     [OData ''data: {\"content\":\"Answer. \"}\<newline>'',
      OData ''data: {\"content\":\"Human:\"}\<newline>''])
   \<and> contentFrames (res (optStream (\<lambda>s. s) defaultStop ''hello'' ''u1'' emptyStore
     [OData ''data: {\"content\":\"Answer. \"}\<newline>'',
      OData ''data: {\"content\":\"Human:\"}\<newline>'']))
     = [''data: {\"content\":\"Answer. \"}\<newline>\<newline>'']"
  by code_simp

theorem C5_optimized_stop_witness:
  "stopSeen defaultStop (optStream (\<lambda>s. s) defaultStop ''hello'' ''u1'' emptyStore
     [OData ''data: {\"content\":\"Answer. \"}\<newline>'',
      OData ''data: {\"content\":\"Human:\"}\<newline>''])
   \<and> contentFrames (res (optStream (\<lambda>s. s) defaultStop ''hello'' ''u1'' emptyStore
     ([OData ''data: {\"content\":\"Answer. \"}\<newline>'',
       OData ''data: {\"content\":\"Human:\"}\<newline>'']
      @ [OData ''data: {\"content\":\"more\"}\<newline>''])))
     = [''data: {\"content\":\"Answer. \"}\<newline>\<newline>'']"
proof -
  from stop_run have s: "stopSeen defaultStop (optStream (\<lambda>s. s) defaultStop ''hello'' ''u1''
     emptyStore [OData ''data: {\"content\":\"Answer. \"}\<newline>'',
      OData ''data: {\"content\":\"Human:\"}\<newline>''])"
    by (rule conjunct1)
  from C5_optimized_stop [OF s, of "[OData ''data: {\"content\":\"more\"}\<newline>'']"]
    stop_run s
  show ?thesis
    by simp
qed

subsection \<open>The budget and the size of the prompt\<close>

text \<open>
  Claim C8 says that the estimate of the returned prompt is at most the computed budget.
  The call with the empty context \<^verbatim>\<open>{}\<close>, type \<^verbatim>\<open>greeting\<close>, complexity 5 and the default
  options has the budget 36 and returns a prompt of 74 estimated tokens.
\<close>

theorem C8_budget_counterexample:
  "metaTokenBudget (compressForLLM (JObj []) ''greeting'' 5 defaultOptions) = Some 36
   \<and> metaActualTokens (compressForLLM (JObj []) ''greeting'' 5 defaultOptions) = Some 74
   \<and> calculateOptimalTokenBudget ''gpt-4o'' ''greeting'' 5 0 = 36
   \<and> \<not> metaError (compressForLLM (JObj []) ''greeting'' 5 defaultOptions)"
proof -
  have "calculateOptimalTokenBudget ''gpt-4o'' ''greeting'' 5 0 = 36"
    by code_simp
  then show ?thesis
    unfolding run_greeting by simp
qed

lemma estimate_le: "estimateTokenCount s \<le> n \<longleftrightarrow> length s \<le> 4 * n"
  by (auto simp: estimateTokenCount_def)

lemma truncateLoop_length:
  assumes "0 \<le> tc" and "int (length result) \<le> 4 * tc" and "tc \<le> tokenLimit"
  shows "int (length (truncateLoop tokenLimit parts result tc)) \<le> 4 * tokenLimit"
  using assms
proof (induction parts arbitrary: result tc)
  case Nil
  then show ?case by simp
next
  case (Cons part parts)
  define pt where "pt = int (estimateTokenCount (part @ '',''))"
  have pt: "int (length part) + 1 \<le> 4 * pt"
    by (simp add: pt_def estimateTokenCount_def)
  show ?case
  proof (cases "tokenLimit < tc + pt")
    case True
    with Cons.prems show ?thesis
      by (simp add: pt_def [symmetric] Let_def)
  next
    case False
    have "int (length (result @ (if result \<noteq> [] then '','' else '''') @ part)) \<le> 4 * (tc + pt)"
      using Cons.prems pt by auto
    moreover have "0 \<le> tc + pt" "tc + pt \<le> tokenLimit"
      using Cons.prems pt False by auto
    ultimately have "int (length (truncateLoop tokenLimit parts
        (result @ (if result \<noteq> [] then '','' else '''') @ part) (tc + pt))) \<le> 4 * tokenLimit"
      by (intro Cons.IH)
    with False show ?thesis
      by (simp add: pt_def [symmetric] Let_def)
  qed
qed

lemma truncateToTokenLimit_length:
  "0 \<le> tokenLimit \<Longrightarrow> int (length (truncateToTokenLimit text tokenLimit)) \<le> 4 * tokenLimit"
  unfolding truncateToTokenLimit_def by (rule truncateLoop_length) simp_all

text \<open>What \<^verbatim>\<open>formatSemanticCompressed\<close> returns is within the limit it is given.\<close>

lemma formatSemanticCompressed_length:
  assumes "formatSemanticCompressed data tokenLimit = Inr s" and "0 \<le> tokenLimit"
  shows "int (length s) \<le> 4 * tokenLimit"
proof (cases "\<not> truthy data \<or> length (js_keys data) = 0")
  case True
  with assms show ?thesis
    by (auto simp: formatSemanticCompressed_def)
next
  case False
  with assms obtain compressedParts where
    s: "s = (let result = join '','' (concat compressedParts)
             in if tokenLimit < int (estimateTokenCount result)
                then truncateToTokenLimit result tokenLimit else result)"
    by (auto simp: formatSemanticCompressed_def compressDataSemantically_def Let_def
        split: sum.splits)
  show ?thesis
  proof (cases "tokenLimit < int (estimateTokenCount (join '','' (concat compressedParts)))")
    case True
    with s assms(2) show ?thesis
      by (simp add: truncateToTokenLimit_length)
  next
    case False
    then have "estimateTokenCount (join '','' (concat compressedParts)) \<le> nat tokenLimit"
      by linarith
    then have "length (join '','' (concat compressedParts)) \<le> 4 * nat tokenLimit"
      by (simp only: estimate_le)
    with s False assms(2) show ?thesis
      by (simp add: Let_def)
  qed
qed

lemma join_length_sep:
  "length (join sep xs) \<le> sum_list (map (\<lambda>x. length x + length sep) xs)"
  by (induction sep xs rule: join.induct) simp_all

lemma join_length: "length (join '' '' xs) \<le> cost xs"
  using join_length_sep [of "'' ''" xs] by (simp add: cost_def)

lemma promptSection_cost:
  assumes "promptSection tag data tokenLimit = Inr xs" and "0 \<le> tokenLimit"
  shows "int (cost xs) \<le> int (length tag) + 3 + 4 * tokenLimit"
proof -
  from assms(1) obtain s where f: "formatSemanticCompressed data tokenLimit = Inr s"
    and xs: "xs = (if s \<noteq> [] then [tag @ ''{'' @ s @ ''}''] else [])"
    by (auto simp: promptSection_def split: sum.splits)
  from formatSemanticCompressed_length [OF f assms(2)] xs assms(2) show ?thesis
    by (auto simp: cost_def)
qed

lemma section_cost:
  assumes "(if b then promptSection tag data tokenLimit else Inr []) = Inr xs"
    and "0 \<le> tokenLimit"
  shows "int (cost xs) \<le> int (length tag) + 3 + 4 * tokenLimit"
proof (cases b)
  case True
  with assms show ?thesis by (simp add: promptSection_cost)
next
  case False
  with assms show ?thesis by (auto simp: cost_def)
qed

lemma collect_Inr: "collect xs = Inr ys \<Longrightarrow> xs = map Inr ys"
proof (induction xs arbitrary: ys rule: collect.induct)
  case 1
  then show ?case by simp
next
  case (2 e xs)
  then show ?case by simp
next
  case (3 a xs)
  then obtain zs where "collect xs = Inr zs" and "ys = a # zs"
    by (cases "collect xs") auto
  with 3 show ?case by simp
qed

lemma generateOptimizedPrompt_length:
  assumes "generateOptimizedPrompt compressedContext messageType strategy = Inr prompt"
  shows "length prompt \<le> 584"
proof -
  let ?cc = compressedContext
  let ?s1 = "if truthy (js_get ?cc ''emotional'') \<or> truthy (js_get ?cc ''dynamic'')
             then promptSection ''MICRO''
                    (js_spread (js_get ?cc ''emotional'') (js_get ?cc ''dynamic'')) 30
             else Inr []"
  let ?s2 = "if truthy (js_get ?cc ''contextual'')
             then promptSection ''TOPIC'' (js_get ?cc ''contextual'') 25 else Inr []"
  let ?s3 = "if truthy (js_get ?cc ''core'')
             then promptSection ''CORE'' (js_get ?cc ''core'') 25 else Inr []"
  let ?s4 = "if truthy (js_get ?cc ''behavioral'') \<and> strategy \<noteq> JStr ''minimal''
             then promptSection ''BEHAV'' (js_get ?cc ''behavioral'') 20 else Inr []"
  let ?s5 = "if truthy (js_get ?cc ''cognitive'') \<and> strategy \<noteq> JStr ''minimal''
             then promptSection ''COG'' (js_get ?cc ''cognitive'') 20 else Inr []"
  let ?s6 = "if truthy (js_get ?cc ''predictive'') \<and> strategy = JStr ''comprehensive''
             then promptSection ''PRED'' (js_get ?cc ''predictive'') 15 else Inr []"
  from assms obtain sections where c: "collect [?s1, ?s2, ?s3, ?s4, ?s5, ?s6] = Inr sections"
    and p: "prompt = join '' '' (concat sections)"
    unfolding generateOptimizedPrompt_def
    by (cases "collect [?s1, ?s2, ?s3, ?s4, ?s5, ?s6]") auto
  from collect_Inr [OF c] obtain x1 x2 x3 x4 x5 x6 where
    secs: "sections = [x1, x2, x3, x4, x5, x6]"
    and e: "?s1 = Inr x1" "?s2 = Inr x2" "?s3 = Inr x3" "?s4 = Inr x4" "?s5 = Inr x5"
      "?s6 = Inr x6"
    by (auto simp: map_eq_Cons_conv)
  have "int (cost x1) \<le> 128" "int (cost x2) \<le> 108" "int (cost x3) \<le> 107"
    "int (cost x4) \<le> 88" "int (cost x5) \<le> 86" "int (cost x6) \<le> 67"
    using section_cost [OF e(1)] section_cost [OF e(2)] section_cost [OF e(3)]
      section_cost [OF e(4)] section_cost [OF e(5)] section_cost [OF e(6)]
    by simp_all
  moreover have "cost (concat sections) = cost x1 + cost x2 + cost x3 + cost x4 + cost x5 + cost x6"
    by (simp add: secs cost_def)
  ultimately have "cost (concat sections) \<le> 584"
    by linarith
  with join_length [of "concat sections"] p show ?thesis
    by simp
qed

text \<open>
  Claim C8, amended: when no step of the compression raises, the estimate of the
  returned prompt is at most 146 tokens, whatever the computed budget is: each of the
  six sections holds at most its own fixed limit (30, 25, 25, 20, 20 and 15 tokens) of
  content. The computed budget bounds what each cluster is compressed to before the
  prompt is generated, not the prompt. The estimate in the metadata is that of the
  prompt.
\<close>

theorem C8_prompt_bound:
  assumes "\<not> metaError (compressForLLM ic messageType complexity opts)"
  shows "estimateTokenCount (compressedPrompt (compressForLLM ic messageType complexity opts))
           \<le> 146
    \<and> metaActualTokens (compressForLLM ic messageType complexity opts)
        = Some (estimateTokenCount
                  (compressedPrompt (compressForLLM ic messageType complexity opts)))"
proof (cases "compressSteps ic messageType complexity opts")
  case (Inl e)
  then have "metaError (compressForLLM ic messageType complexity opts)"
    by (simp add: compressForLLM_def getFallbackCompression_def)
  with assms show ?thesis by simp
next
  case (Inr r)
  then have r: "compressForLLM ic messageType complexity opts = r"
    by (simp add: compressForLLM_def)
  from Inr obtain cc strategy where
    g: "generateOptimizedPrompt cc messageType strategy = Inr (compressedPrompt r)"
    and a: "metaActualTokens r = Some (estimateTokenCount (compressedPrompt r))"
    by (auto simp: compressSteps_def Let_def optimizeCompressionQuality_def split: sum.splits)
  from generateOptimizedPrompt_length [OF g]
  have "estimateTokenCount (compressedPrompt r) \<le> 146"
    by (simp add: estimateTokenCount_def)
  with a show ?thesis
    unfolding r by simp
qed

theorem C8_prompt_bound_witness:
  "\<not> metaError (compressForLLM (JObj []) ''greeting'' 5 defaultOptions)
   \<and> estimateTokenCount (compressedPrompt (compressForLLM (JObj []) ''greeting'' 5 defaultOptions))
       \<le> 146
   \<and> metaActualTokens (compressForLLM (JObj []) ''greeting'' 5 defaultOptions) = Some 74"
proof -
  have e: "\<not> metaError (compressForLLM (JObj []) ''greeting'' 5 defaultOptions)"
    unfolding run_greeting by simp
  have "metaActualTokens (compressForLLM (JObj []) ''greeting'' 5 defaultOptions) = Some 74"
    unfolding run_greeting by simp
  with C8_prompt_bound [OF e] e show ?thesis
    by simp
qed

end
